theory Spec2Isabelle
  imports Main
begin

section \<open>Python values\<close>

text \<open>
  A payload is what the request boundary hands over after JSON decoding: a tree of
  \<open>None\<close>, \<open>bool\<close>, \<open>int\<close>, \<open>float\<close>, \<open>str\<close>, \<open>list\<close> and \<open>dict\<close> values.
  Python integers are unbounded (\<open>int\<close>). A \<open>dict\<close> is an association list in
  insertion order; a Python \<open>dict\<close> has each key once.

  The code never does arithmetic on a \<open>float\<close>: it converts to and from it, prints
  it and tests it for zero. A finite float \<open>Finite m e\<close> stands for the decimal
  \<open>m * 10 ^ e\<close> it was read from; rounding to 53 binary digits is not modelled, the
  range of the type is (a magnitude from \<open>2 ^ 1024 - 2 ^ 970\<close> on is out of range).
  Characters are the code points below 256.
\<close>

datatype pyfloat = Finite int int | PosInf | NegInf | NaN

datatype pyval =
    PNone
  | PBool bool
  | PInt int
  | PFloat pyfloat
  | PStr string
  | PList "pyval list"
  | PDict "(string \<times> pyval) list"

type_synonym pydict = "(string \<times> pyval) list"

text \<open>The exceptions the code can meet, each with its message (\<open>str(exc)\<close>).\<close>

datatype exn = ValueError string | TypeError string | OverflowError string

fun exn_str :: "exn \<Rightarrow> string" where
  "exn_str (ValueError m) = m"
| "exn_str (TypeError m) = m"
| "exn_str (OverflowError m) = m"

subsection \<open>Truthiness, \<open>or\<close>, \<open>dict.get\<close>, item assignment\<close>

fun float_is_zero :: "pyfloat \<Rightarrow> bool" where
  "float_is_zero (Finite m e) = (m = 0)"
| "float_is_zero _ = False"

fun truthy :: "pyval \<Rightarrow> bool" where
  "truthy PNone = False"
| "truthy (PBool b) = b"
| "truthy (PInt n) = (n \<noteq> 0)"
| "truthy (PFloat f) = (\<not> float_is_zero f)"
| "truthy (PStr s) = (s \<noteq> [])"
| "truthy (PList xs) = (xs \<noteq> [])"
| "truthy (PDict d) = (d \<noteq> [])"

text \<open>\<open>a or b\<close>: \<open>a\<close> when it is truthy, else \<open>b\<close>, whatever \<open>b\<close> is.\<close>

definition py_or :: "pyval \<Rightarrow> pyval \<Rightarrow> pyval" where
  "py_or a b = (if truthy a then a else b)"

text \<open>\<open>d.get(k)\<close>: the value under \<open>k\<close>, \<open>None\<close> when the key is missing.\<close>

definition dict_get :: "pydict \<Rightarrow> string \<Rightarrow> pyval" where
  "dict_get d k = (case map_of d k of None \<Rightarrow> PNone | Some v \<Rightarrow> v)"

text \<open>\<open>d[k] = v\<close>: an existing key keeps its place, a new key goes to the end.\<close>

fun dict_set :: "pydict \<Rightarrow> string \<Rightarrow> pyval \<Rightarrow> pydict" where
  "dict_set [] k v = [(k, v)]"
| "dict_set ((k', v') # d) k v =
     (if k' = k then (k, v) # d else (k', v') # dict_set d k v)"

fun is_dict :: "pyval \<Rightarrow> bool" where
  "is_dict (PDict d) = True"
| "is_dict _ = False"

subsection \<open>Strings\<close>

definition ord :: "char \<Rightarrow> nat" where
  "ord c = of_char c"

definition is_space :: "char \<Rightarrow> bool" where
  "is_space c = (let n = ord c in
     (9 \<le> n \<and> n \<le> 13) \<or> (28 \<le> n \<and> n \<le> 32) \<or> n = 133 \<or> n = 160)"

definition is_digit :: "char \<Rightarrow> bool" where
  "is_digit c = (let n = ord c in 48 \<le> n \<and> n \<le> 57)"

definition digit_val :: "char \<Rightarrow> nat" where
  "digit_val c = ord c - 48"

definition digit_chr :: "nat \<Rightarrow> char" where
  "digit_chr d = char_of (48 + d)"

text \<open>\<open>s.strip()\<close> and \<open>s.lower()\<close>.\<close>

definition strip :: "string \<Rightarrow> string" where
  "strip s = rev (dropWhile is_space (rev (dropWhile is_space s)))"

definition lower_chr :: "char \<Rightarrow> char" where
  "lower_chr c = (let n = ord c in
     if (65 \<le> n \<and> n \<le> 90) \<or> (192 \<le> n \<and> n \<le> 222 \<and> n \<noteq> 215)
     then char_of (n + 32) else c)"

definition lower :: "string \<Rightarrow> string" where
  "lower s = map lower_chr s"

text \<open>Decimal digits of a natural number, and back.\<close>

fun str_nat :: "nat \<Rightarrow> string" where
  "str_nat n = (if n < 10 then [digit_chr n] else str_nat (n div 10) @ [digit_chr (n mod 10)])"

declare str_nat.simps [simp del]

definition str_int :: "int \<Rightarrow> string" where
  "str_int i = (if i < 0 then CHR ''-'' # str_nat (nat (- i)) else str_nat (nat i))"

definition nat_of_digits :: "string \<Rightarrow> nat" where
  "nat_of_digits s = foldl (\<lambda>acc c. 10 * acc + digit_val c) 0 s"

text \<open>\<open>s.rjust(w, '0')\<close> and \<open>s.ljust(w, '0')\<close>.\<close>

definition zpad :: "nat \<Rightarrow> string \<Rightarrow> string" where
  "zpad w s = replicate (w - length s) CHR ''0'' @ s"

definition zpad_right :: "nat \<Rightarrow> string \<Rightarrow> string" where
  "zpad_right w s = s @ replicate (w - length s) CHR ''0''"

subsection \<open>\<open>repr\<close> and \<open>str\<close>\<close>

definition hex_chr :: "nat \<Rightarrow> char" where
  "hex_chr d = (if d < 10 then char_of (48 + d) else char_of (87 + d))"

definition is_printable :: "char \<Rightarrow> bool" where
  "is_printable c = (let n = ord c in (32 \<le> n \<and> n \<le> 126) \<or> (161 \<le> n \<and> n \<noteq> 173))"

definition repr_chr :: "char \<Rightarrow> char \<Rightarrow> string" where
  "repr_chr q c =
     (if c = q \<or> c = CHR 0x5C then [CHR 0x5C, c]
      else if c = CHR 0x09 then [CHR 0x5C, CHR ''t'']
      else if c = CHR 0x0A then [CHR 0x5C, CHR ''n'']
      else if c = CHR 0x0D then [CHR 0x5C, CHR ''r'']
      else if is_printable c then [c]
      else [CHR 0x5C, CHR ''x'', hex_chr (ord c div 16), hex_chr (ord c mod 16)])"

text \<open>\<open>repr\<close> of a \<open>str\<close>: double quotes only when the text has a single quote and no
  double quote.\<close>

definition str_repr :: "string \<Rightarrow> string" where
  "str_repr s =
     (let q = (if CHR 0x27 \<in> set s \<and> CHR 0x22 \<notin> set s then CHR 0x22 else CHR 0x27)
      in q # concat (map (repr_chr q) s) @ [q])"

text \<open>\<open>repr\<close> of a \<open>float\<close>: the digits without trailing zeros, in exponent form when
  the decimal point lies more than 16 places right or 4 or more places left of the
  first digit.\<close>

definition float_digits :: "nat \<Rightarrow> int \<Rightarrow> string" where
  "float_digits m e =
     (let ds0 = str_nat m;
          z = length (takeWhile (\<lambda>c. c = CHR ''0'') (rev ds0));
          ds = take (length ds0 - z) ds0;
          n = length ds;
          decpt = int n + int z + e
      in if decpt \<le> -4 \<or> 16 < decpt
         then hd ds # (if 1 < n then CHR ''.'' # tl ds else [])
              @ [CHR ''e'', if decpt - 1 < 0 then CHR ''-'' else CHR ''+'']
              @ zpad 2 (str_nat (nat \<bar>decpt - 1\<bar>))
         else if decpt \<le> 0 then ''0.'' @ replicate (nat (- decpt)) CHR ''0'' @ ds
         else if int n \<le> decpt then ds @ replicate (nat (decpt - int n)) CHR ''0'' @ ''.0''
         else take (nat decpt) ds @ ''.'' @ drop (nat decpt) ds)"

fun float_repr :: "pyfloat \<Rightarrow> string" where
  "float_repr (Finite m e) =
     (if m = 0 then ''0.0''
      else (if m < 0 then ''-'' else []) @ float_digits (nat \<bar>m\<bar>) e)"
| "float_repr PosInf = ''inf''"
| "float_repr NegInf = ''-inf''"
| "float_repr NaN = ''nan''"

fun join :: "string \<Rightarrow> string list \<Rightarrow> string" where
  "join sep [] = []"
| "join sep [x] = x"
| "join sep (x # y # ys) = x @ sep @ join sep (y # ys)"

fun py_repr :: "pyval \<Rightarrow> string" where
  "py_repr PNone = ''None''"
| "py_repr (PBool b) = (if b then ''True'' else ''False'')"
| "py_repr (PInt n) = str_int n"
| "py_repr (PFloat f) = float_repr f"
| "py_repr (PStr s) = str_repr s"
| "py_repr (PList xs) = ''['' @ join '', '' (map py_repr xs) @ '']''"
| "py_repr (PDict d) =
     ''{'' @ join '', '' (map (\<lambda>kv. str_repr (fst kv) @ '': '' @ py_repr (snd kv)) d) @ ''}''"

text \<open>\<open>str(v)\<close>: the text itself for a \<open>str\<close>, the \<open>repr\<close> for everything else.\<close>

definition py_str :: "pyval \<Rightarrow> string" where
  "py_str v = (case v of PStr s \<Rightarrow> s | _ \<Rightarrow> py_repr v)"

subsection \<open>\<open>float(v)\<close> and \<open>int(v)\<close>\<close>

definition FLOAT_LIMIT :: int where
  "FLOAT_LIMIT = 2 ^ 1024 - 2 ^ 970"

text \<open>Whether \<open>|m * 10 ^ e|\<close> is beyond the largest float.\<close>

definition dec_overflows :: "int \<Rightarrow> int \<Rightarrow> bool" where
  "dec_overflows m e =
     (if 0 \<le> e then FLOAT_LIMIT \<le> \<bar>m\<bar> * 10 ^ nat e
      else FLOAT_LIMIT * 10 ^ nat (- e) \<le> \<bar>m\<bar>)"

text \<open>Digits with single underscores between them: the underscores are dropped, and
  \<open>None\<close> is a misplaced one.\<close>

fun drop_underscores :: "char option \<Rightarrow> string \<Rightarrow> string option" where
  "drop_underscores prev [] = Some []"
| "drop_underscores prev (c # cs) =
     (if c = CHR ''_'' then
        (case (prev, cs) of
           (Some p, n # _) \<Rightarrow>
             if is_digit p \<and> is_digit n then drop_underscores (Some c) cs else None
         | _ \<Rightarrow> None)
      else map_option ((#) c) (drop_underscores (Some c) cs))"

text \<open>The text after the sign: \<open>inf\<close>, \<open>infinity\<close>, \<open>nan\<close> in any case, or digits with
  an optional point and an optional exponent; \<open>None\<close> is Python's \<open>ValueError\<close>.\<close>

definition parse_exponent :: "string \<Rightarrow> int option" where
  "parse_exponent s =
     (case s of
        [] \<Rightarrow> Some 0
      | c # cs \<Rightarrow>
          if c = CHR ''e'' \<or> c = CHR ''E'' then
            (let neg = (take 1 cs = ''-'');
                 ds = (if take 1 cs = ''-'' \<or> take 1 cs = ''+'' then drop 1 cs else cs)
             in if ds \<noteq> [] \<and> list_all is_digit ds
                then Some ((if neg then -1 else 1) * int (nat_of_digits ds)) else None)
          else None)"

definition parse_unsigned_float :: "string \<Rightarrow> pyfloat option" where
  "parse_unsigned_float s =
     (if lower s = ''inf'' \<or> lower s = ''infinity'' then Some PosInf
      else if lower s = ''nan'' then Some NaN
      else
        let ip = takeWhile is_digit s;
            r1 = dropWhile is_digit s;
            r2 = (if take 1 r1 = ''.'' then drop 1 r1 else r1);
            fp = (if take 1 r1 = ''.'' then takeWhile is_digit r2 else []);
            r3 = (if take 1 r1 = ''.'' then dropWhile is_digit r2 else r1)
        in if ip @ fp = [] then None
           else (case parse_exponent r3 of
                   None \<Rightarrow> None
                 | Some x \<Rightarrow>
                     let m = int (nat_of_digits (ip @ fp)); e = x - int (length fp)
                     in Some (if dec_overflows m e then PosInf else Finite m e)))"

fun float_neg :: "pyfloat \<Rightarrow> pyfloat" where
  "float_neg (Finite m e) = Finite (- m) e"
| "float_neg PosInf = NegInf"
| "float_neg NegInf = PosInf"
| "float_neg NaN = NaN"

definition float_of_str :: "string \<Rightarrow> pyfloat option" where
  "float_of_str s0 =
     (case drop_underscores None (strip s0) of
        None \<Rightarrow> None
      | Some s \<Rightarrow>
          if take 1 s = ''-'' then map_option float_neg (parse_unsigned_float (drop 1 s))
          else if take 1 s = ''+'' then parse_unsigned_float (drop 1 s)
          else parse_unsigned_float s)"

definition int_of_str :: "string \<Rightarrow> int option" where
  "int_of_str s0 =
     (let s = strip s0;
          neg = (take 1 s = ''-'');
          body = (if take 1 s = ''-'' \<or> take 1 s = ''+'' then drop 1 s else s)
      in case drop_underscores None body of
           None \<Rightarrow> None
         | Some ds \<Rightarrow>
             if ds \<noteq> [] \<and> list_all is_digit ds
             then Some ((if neg then -1 else 1) * int (nat_of_digits ds)) else None)"

text \<open>\<open>float(v)\<close>. An \<open>int\<close> too large for a float raises \<open>OverflowError\<close>.\<close>

fun py_float :: "pyval \<Rightarrow> exn + pyfloat" where
  "py_float (PBool b) = Inr (Finite (if b then 1 else 0) 0)"
| "py_float (PInt n) =
     (if FLOAT_LIMIT \<le> \<bar>n\<bar> then Inl (OverflowError ''int too large to convert to float'')
      else Inr (Finite n 0))"
| "py_float (PFloat f) = Inr f"
| "py_float (PStr s) =
     (case float_of_str s of
        None \<Rightarrow> Inl (ValueError (''could not convert string to float: '' @ str_repr s))
      | Some f \<Rightarrow> Inr f)"
| "py_float v = Inl (TypeError ''float() argument must be a string or a real number'')"

text \<open>\<open>int(v)\<close>: a float is cut towards zero; infinity raises \<open>OverflowError\<close>.\<close>

definition float_trunc :: "int \<Rightarrow> int \<Rightarrow> int" where
  "float_trunc m e =
     (if 0 \<le> e then m * 10 ^ nat e
      else sgn m * (\<bar>m\<bar> div 10 ^ nat (- e)))"

fun py_int :: "pyval \<Rightarrow> exn + int" where
  "py_int (PBool b) = Inr (if b then 1 else 0)"
| "py_int (PInt n) = Inr n"
| "py_int (PFloat (Finite m e)) = Inr (float_trunc m e)"
| "py_int (PFloat NaN) = Inl (ValueError ''cannot convert float NaN to integer'')"
| "py_int (PFloat f) = Inl (OverflowError ''cannot convert float infinity to integer'')"
| "py_int (PStr s) =
     (case int_of_str s of
        None \<Rightarrow> Inl (ValueError (''invalid literal for int() with base 10: '' @ str_repr s))
      | Some n \<Rightarrow> Inr n)"
| "py_int v = Inl (TypeError ''int() argument must be a string, a bytes-like object or a real number'')"

subsection \<open>\<open>datetime\<close>\<close>

text \<open>
  A \<open>datetime\<close> with its \<open>tzinfo\<close>: \<open>None\<close> for a naive value, else the offset from UTC
  in microseconds (a \<open>timezone\<close> of a fixed \<open>timedelta\<close>).
\<close>

record datetime =
  dt_year :: nat
  dt_month :: nat
  dt_day :: nat
  dt_hour :: nat
  dt_minute :: nat
  dt_second :: nat
  dt_microsecond :: nat
  dt_tzinfo :: "int option"

definition is_leap :: "nat \<Rightarrow> bool" where
  "is_leap y = (y mod 4 = 0 \<and> (y mod 100 \<noteq> 0 \<or> y mod 400 = 0))"

definition days_in_month :: "nat \<Rightarrow> nat \<Rightarrow> nat" where
  "days_in_month y m =
     (if m = 2 then (if is_leap y then 29 else 28)
      else if m = 4 \<or> m = 6 \<or> m = 9 \<or> m = 11 then 30 else 31)"

text \<open>The offset as \<open>isoformat\<close> prints it: sign, hours and minutes, then seconds and
  microseconds only when they are not zero.\<close>

definition format_utcoffset :: "int \<Rightarrow> string" where
  "format_utcoffset off =
     (let a = nat \<bar>off\<bar>;
          hh = a div 3600000000;
          mm = (a div 60000000) mod 60;
          ss = (a div 1000000) mod 60;
          us = a mod 1000000
      in (if off < 0 then CHR ''-'' else CHR ''+'') # zpad 2 (str_nat hh) @ '':'' @ zpad 2 (str_nat mm)
         @ (if ss \<noteq> 0 \<or> us \<noteq> 0
            then '':'' @ zpad 2 (str_nat ss) @ (if us \<noteq> 0 then ''.'' @ zpad 6 (str_nat us) else [])
            else []))"

definition isoformat_naive :: "datetime \<Rightarrow> string" where
  "isoformat_naive dt =
     zpad 4 (str_nat (dt_year dt)) @ ''-'' @ zpad 2 (str_nat (dt_month dt)) @ ''-''
     @ zpad 2 (str_nat (dt_day dt)) @ ''T'' @ zpad 2 (str_nat (dt_hour dt)) @ '':''
     @ zpad 2 (str_nat (dt_minute dt)) @ '':'' @ zpad 2 (str_nat (dt_second dt))
     @ (if dt_microsecond dt \<noteq> 0 then ''.'' @ zpad 6 (str_nat (dt_microsecond dt)) else [])"

definition isoformat :: "datetime \<Rightarrow> string" where
  "isoformat dt =
     isoformat_naive dt @ (case dt_tzinfo dt of None \<Rightarrow> [] | Some off \<Rightarrow> format_utcoffset off)"

text \<open>The calendar date of a day number counted from 1970-01-01.\<close>

definition civil_from_days :: "int \<Rightarrow> int \<times> int \<times> int" where
  "civil_from_days days =
     (let z = days + 719468;
          era = z div 146097;
          doe = z - era * 146097;
          yoe = (doe - doe div 1460 + doe div 36524 - doe div 146096) div 365;
          doy = doe - (365 * yoe + yoe div 4 - yoe div 100);
          mp = (5 * doy + 2) div 153;
          d = doy - (153 * mp + 2) div 5 + 1;
          m = (if mp < 10 then mp + 3 else mp - 9);
          y = yoe + era * 400 + (if m \<le> 2 then 1 else 0)
      in (y, m, d))"

definition MIN_EPOCH :: int where
  "MIN_EPOCH = - 62135596800"

definition MAX_EPOCH :: int where
  "MAX_EPOCH = 253402300799"

text \<open>\<open>datetime.fromtimestamp(secs + us / 10^6, tz=timezone.utc)\<close> for whole seconds and
  microseconds; \<open>None\<close> when the year is outside 1 to 9999 (Python raises
  \<open>ValueError\<close>, \<open>OverflowError\<close> or \<open>OSError\<close> there).\<close>

definition utc_from_epoch :: "int \<Rightarrow> nat \<Rightarrow> datetime option" where
  "utc_from_epoch secs us =
     (if secs < MIN_EPOCH \<or> MAX_EPOCH < secs then None
      else
        let (y, m, d) = civil_from_days (secs div 86400);
            r = nat (secs mod 86400)
        in Some \<lparr>dt_year = nat y, dt_month = nat m, dt_day = nat d,
                  dt_hour = r div 3600, dt_minute = (r div 60) mod 60, dt_second = r mod 60,
                  dt_microsecond = us, dt_tzinfo = Some 0\<rparr>)"

text \<open>\<open>m * 10 ^ e\<close> seconds in microseconds, a tie rounded to the even neighbour.\<close>

definition round_half_even :: "int \<Rightarrow> int \<Rightarrow> int" where
  "round_half_even n d =
     (let q = n div d; r = n mod d
      in if 2 * r < d then q
         else if d < 2 * r then q + 1
         else if even q then q else q + 1)"

definition microseconds_of :: "int \<Rightarrow> int \<Rightarrow> int" where
  "microseconds_of m e =
     (if 0 \<le> e + 6 then m * 10 ^ nat (e + 6)
      else round_half_even m (10 ^ nat (- (e + 6))))"

text \<open>\<open>datetime.fromtimestamp(value, tz=timezone.utc)\<close> for an \<open>int\<close> (a \<open>bool\<close> is one)
  or a \<open>float\<close>.\<close>

fun fromtimestamp_utc :: "pyval \<Rightarrow> datetime option" where
  "fromtimestamp_utc (PBool b) = utc_from_epoch (if b then 1 else 0) 0"
| "fromtimestamp_utc (PInt n) = utc_from_epoch n 0"
| "fromtimestamp_utc (PFloat (Finite m e)) =
     (let t = microseconds_of m e
      in utc_from_epoch (t div 1000000) (nat (t mod 1000000)))"
| "fromtimestamp_utc v = None"

subsection \<open>\<open>datetime.strptime\<close>\<close>

text \<open>
  \<open>strptime\<close> turns the format into a regular expression, takes its first match at the
  start of the text in backtracking order, and refuses a match that leaves text over.
  \<open>rx_match\<close> lists what each way of matching leaves over, in that order.
\<close>

datatype rx =
    RChr "char \<Rightarrow> bool"
  | RPlus "char \<Rightarrow> bool"
  | RSeq rx rx
  | RAlt rx rx
  | REps

fun rx_match :: "rx \<Rightarrow> string \<Rightarrow> string list" where
  "rx_match (RChr p) s = (case s of [] \<Rightarrow> [] | c # r \<Rightarrow> if p c then [r] else [])"
| "rx_match (RPlus p) s =
     map (\<lambda>k. drop k s) (rev [1 ..< Suc (length (takeWhile p s))])"
| "rx_match (RSeq a b) s = concat (map (rx_match b) (rx_match a s))"
| "rx_match (RAlt a b) s = rx_match a s @ rx_match b s"
| "rx_match REps s = [s]"

definition ropt :: "rx \<Rightarrow> rx" where
  "ropt r = RAlt r REps"

definition rin :: "string \<Rightarrow> rx" where
  "rin cs = RChr (\<lambda>c. c \<in> set cs)"

definition rdigit :: rx where
  "rdigit = RChr is_digit"

definition upper_chr :: "char \<Rightarrow> char" where
  "upper_chr c = (let n = ord c in
     if (97 \<le> n \<and> n \<le> 122) \<or> (224 \<le> n \<and> n \<le> 254 \<and> n \<noteq> 247)
     then char_of (n - 32) else c)"

text \<open>A literal character of the format; the expression ignores case.\<close>

definition rlit :: "char \<Rightarrow> rx" where
  "rlit c = RChr (\<lambda>x. x = c \<or> x = lower_chr c \<or> x = upper_chr c)"

definition rx_digits_1_6 :: rx where
  "rx_digits_1_6 =
     RSeq rdigit (ropt (RSeq rdigit (ropt (RSeq rdigit (ropt (RSeq rdigit
       (ropt (RSeq rdigit (ropt rdigit)))))))))"

definition rx_zone :: rx where
  "rx_zone =
     RAlt (RSeq (rin ''+-'') (RSeq rdigit (RSeq rdigit (RSeq (ropt (rin '':''))
             (RSeq (rin ''012345'') (RSeq rdigit
               (ropt (RSeq (ropt (rin '':'')) (RSeq (rin ''012345'') (RSeq rdigit
                 (ropt (RSeq (rin ''.'') rx_digits_1_6))))))))))))
          (rin ''Z'')"

definition directive_rx :: "char \<Rightarrow> rx" where
  "directive_rx c =
     (if c = CHR ''Y'' then RSeq rdigit (RSeq rdigit (RSeq rdigit rdigit))
      else if c = CHR ''m'' then
        RAlt (RSeq (rin ''1'') (rin ''012'')) (RAlt (RSeq (rin ''0'') (rin ''123456789'')) (rin ''123456789''))
      else if c = CHR ''d'' then
        RAlt (RSeq (rin ''3'') (rin ''01'')) (RAlt (RSeq (rin ''12'') rdigit)
          (RAlt (RSeq (rin ''0'') (rin ''123456789'')) (RAlt (rin ''123456789'')
            (RSeq (rin '' '') (rin ''123456789'')))))
      else if c = CHR ''H'' then
        RAlt (RSeq (rin ''2'') (rin ''0123'')) (RAlt (RSeq (rin ''01'') rdigit) rdigit)
      else if c = CHR ''M'' then RAlt (RSeq (rin ''012345'') rdigit) rdigit
      else if c = CHR ''S'' then
        RAlt (RSeq (rin ''6'') (rin ''01'')) (RAlt (RSeq (rin ''012345'') rdigit) rdigit)
      else if c = CHR ''f'' then rx_digits_1_6
      else if c = CHR ''z'' then rx_zone
      else RChr (\<lambda>x. False))"

text \<open>The format as a list of pieces: a directive with its name, a run of white space
  (one or more white-space characters of the text), or a literal character.\<close>

function compile_format :: "string \<Rightarrow> (char option \<times> rx) list" where
  "compile_format [] = []"
| "compile_format (c # cs) =
     (if c = CHR ''%'' then
        (case cs of
           [] \<Rightarrow> []
         | d # r \<Rightarrow> (Some d, directive_rx d) # compile_format r)
      else if is_space c then (None, RPlus is_space) # compile_format (dropWhile is_space cs)
      else (None, rlit c) # compile_format cs)"
  by pat_completeness auto
termination
  by (relation "measure length") (auto simp: le_imp_less_Suc length_dropWhile_le)

fun match_format :: "(char option \<times> rx) list \<Rightarrow> string \<Rightarrow> ((char \<times> string) list \<times> string) list" where
  "match_format [] s = [([], s)]"
| "match_format ((nm, r) # ps) s =
     concat (map (\<lambda>rest.
        map (\<lambda>(caps, fin).
               ((case nm of None \<Rightarrow> caps
                 | Some c \<Rightarrow> (c, take (length s - length rest) s) # caps), fin))
            (match_format ps rest))
       (rx_match r s))"

text \<open>The offset text of \<open>%z\<close> (not \<open>Z\<close>) in microseconds; \<open>None\<close> is \<open>ValueError\<close>.\<close>

definition parse_zone :: "string \<Rightarrow> int option" where
  "parse_zone z =
     (let colon = (3 < length z \<and> z ! 3 = CHR '':'');
          z1 = (if colon then take 3 z @ drop 4 z else z)
      in if colon \<and> 5 < length z1 \<and> z1 ! 5 \<noteq> CHR '':'' then None
         else
           let z2 = (if colon \<and> 5 < length z1 then take 5 z1 @ drop 6 z1 else z1);
               hours = nat_of_digits (take 2 (drop 1 z2));
               minutes = nat_of_digits (take 2 (drop 3 z2));
               ss = take 2 (drop 5 z2)
           in case (if ss = [] then Some 0 else int_of_str ss) of
                None \<Rightarrow> None
              | Some seconds \<Rightarrow>
                  let gmtoff = int hours * 3600 + int minutes * 60 + seconds;
                      fraction = int (nat_of_digits (zpad_right 6 (drop 8 z2)));
                      total = gmtoff * 1000000 + fraction
                  in Some (if take 1 z2 = ''-'' then - total else total))"

text \<open>A \<open>timezone\<close> takes an offset strictly between minus and plus 24 hours.\<close>

definition valid_offset :: "int option \<Rightarrow> bool" where
  "valid_offset tz = (case tz of None \<Rightarrow> True | Some off \<Rightarrow> \<bar>off\<bar> < 86400000000)"

definition cap_num :: "(char \<times> string) list \<Rightarrow> char \<Rightarrow> nat \<Rightarrow> nat" where
  "cap_num caps c dflt =
     (case map_of caps c of None \<Rightarrow> dflt | Some s \<Rightarrow> nat_of_digits (filter is_digit s))"

text \<open>\<open>datetime.strptime(v, fmt)\<close> for the directives \<open>%Y %m %d %H %M %S %f %z\<close>;
  \<open>None\<close> is \<open>ValueError\<close>, the only exception it raises on two \<open>str\<close> arguments.\<close>

definition capture_zone :: "(char \<times> string) list \<Rightarrow> int option option" where
  "capture_zone caps =
     (case map_of caps CHR ''z'' of
        None \<Rightarrow> Some None
      | Some z \<Rightarrow> if z = ''Z'' then Some (Some 0) else map_option Some (parse_zone z))"

definition capture_fraction :: "(char \<times> string) list \<Rightarrow> nat" where
  "capture_fraction caps =
     (case map_of caps CHR ''f'' of None \<Rightarrow> 0 | Some s \<Rightarrow> nat_of_digits (zpad_right 6 s))"

definition valid_fields :: "nat \<Rightarrow> nat \<Rightarrow> nat \<Rightarrow> nat \<Rightarrow> bool" where
  "valid_fields y m d s =
     (1 \<le> y \<and> y \<le> 9999 \<and> 1 \<le> m \<and> m \<le> 12 \<and> 1 \<le> d \<and> d \<le> days_in_month y m \<and> s \<le> 59)"

definition make_datetime :: "(char \<times> string) list \<Rightarrow> int option \<Rightarrow> datetime option" where
  "make_datetime caps tz =
     (let y = cap_num caps CHR ''Y'' 1900;
          m = cap_num caps CHR ''m'' 1;
          d = cap_num caps CHR ''d'' 1;
          s = cap_num caps CHR ''S'' 0
      in if valid_fields y m d s \<and> valid_offset tz
         then Some \<lparr>dt_year = y, dt_month = m, dt_day = d,
                    dt_hour = cap_num caps CHR ''H'' 0, dt_minute = cap_num caps CHR ''M'' 0,
                    dt_second = s, dt_microsecond = capture_fraction caps, dt_tzinfo = tz\<rparr>
         else None)"

definition strptime :: "string \<Rightarrow> string \<Rightarrow> datetime option" where
  "strptime v fmt =
     (case match_format (compile_format fmt) v of
        [] \<Rightarrow> None
      | (caps, rest) # others \<Rightarrow>
          if rest \<noteq> [] then None
          else (case capture_zone caps of
                  None \<Rightarrow> None
                | Some tz \<Rightarrow> make_datetime caps tz))"

section \<open>utils.py\<close>

definition SEVERITY_MAP :: "(string \<times> string) list" where
  "SEVERITY_MAP =
     [(''1'', ''low''), (''2'', ''moderate''), (''3'', ''considerable''), (''4'', ''high''),
      (''5'', ''extreme''), (''low'', ''low''), (''moderate'', ''moderate''),
      (''considerable'', ''considerable''), (''high'', ''high''), (''extreme'', ''extreme''),
      (''no rating'', ''unknown''), (''none'', ''unknown'')]"

definition normalize_severity :: "pyval \<Rightarrow> string" where
  "normalize_severity v =
     (if v = PNone then ''unknown''
      else case map_of SEVERITY_MAP (lower (strip (py_str v))) of
             None \<Rightarrow> ''unknown''
           | Some level \<Rightarrow> level)"

definition FORMATS :: "string list" where
  "FORMATS =
     [''%Y-%m-%dT%H:%M:%SZ'', ''%Y-%m-%dT%H:%M:%S%z'', ''%Y-%m-%dT%H:%M:%S.%f%z'',
      ''%Y-%m-%dT%H:%M:%S.%fZ'', ''%Y-%m-%d %H:%M:%S'', ''%Y-%m-%d'']"

text \<open>\<open>dt.replace(tzinfo=timezone.utc)\<close> when \<open>dt.tzinfo is None\<close>.\<close>

definition assume_utc :: "datetime \<Rightarrow> datetime" where
  "assume_utc dt = (if dt_tzinfo dt = None then dt\<lparr>dt_tzinfo := Some 0\<rparr> else dt)"

text \<open>The loop over the formats: the first one \<open>strptime\<close> accepts returns.\<close>

fun try_formats :: "string list \<Rightarrow> string \<Rightarrow> string option" where
  "try_formats [] v = None"
| "try_formats (fmt # fmts) v =
     (case strptime v fmt of
        Some dt \<Rightarrow> Some (isoformat (assume_utc dt))
      | None \<Rightarrow> try_formats fmts v)"

text \<open>\<open>isinstance(value, (int, float))\<close> holds of a \<open>bool\<close> too: \<open>bool\<close> is a subclass of
  \<open>int\<close>.\<close>

fun parse_timestamp :: "pyval \<Rightarrow> string option" where
  "parse_timestamp PNone = None"
| "parse_timestamp (PBool b) = map_option isoformat (fromtimestamp_utc (PBool b))"
| "parse_timestamp (PInt n) = map_option isoformat (fromtimestamp_utc (PInt n))"
| "parse_timestamp (PFloat f) = map_option isoformat (fromtimestamp_utc (PFloat f))"
| "parse_timestamp (PStr s) = try_formats FORMATS (strip s)"
| "parse_timestamp v = None"

definition safe_str :: "pyval \<Rightarrow> string" where
  "safe_str v = (if v = PNone then [] else strip (py_str v))"

text \<open>\<open>float(v) if v is not None else None\<close> inside \<open>try\<close> / \<open>except (ValueError,
  TypeError)\<close>: any other exception leaves the function.\<close>

definition coerce_float :: "pyval \<Rightarrow> exn + pyfloat option" where
  "coerce_float v =
     (if v = PNone then Inr None
      else case py_float v of
             Inr f \<Rightarrow> Inr (Some f)
           | Inl (ValueError m) \<Rightarrow> Inr None
           | Inl (TypeError m) \<Rightarrow> Inr None
           | Inl e \<Rightarrow> Inl e)"

definition extract_coordinates :: "pydict \<Rightarrow> exn + (pyfloat option \<times> pyfloat option)" where
  "extract_coordinates payload =
     (let lat0 = py_or (dict_get payload ''lat'') (dict_get payload ''latitude'');
          lon0 = py_or (dict_get payload ''lon'') (dict_get payload ''longitude'');
          (lat1, lon1) =
            (if lat0 = PNone \<and> lon0 = PNone then
               (case py_or (dict_get payload ''location'') (dict_get payload ''coordinates'') of
                  PDict loc \<Rightarrow>
                    (py_or (dict_get loc ''lat'') (dict_get loc ''latitude''),
                     py_or (dict_get loc ''lon'') (dict_get loc ''longitude''))
                | _ \<Rightarrow> (lat0, lon0))
             else (lat0, lon0))
      in case coerce_float lat1 of
           Inl e \<Rightarrow> Inl e
         | Inr lat \<Rightarrow>
             (case coerce_float lon1 of
                Inl e \<Rightarrow> Inl e
              | Inr lon \<Rightarrow> Inr (lat, lon)))"

text \<open>\<open>isinstance(v, (int, float, str, bool, type(None)))\<close>.\<close>

fun is_scalar :: "pyval \<Rightarrow> bool" where
  "is_scalar (PList xs) = False"
| "is_scalar (PDict d) = False"
| "is_scalar v = True"

text \<open>The loop of \<open>validate_metrics\<close> over \<open>metrics.items()\<close>, with \<open>cleaned\<close> and
  \<open>flags\<close> as they stand.\<close>

fun validate_loop :: "pydict \<Rightarrow> pydict \<Rightarrow> string list \<Rightarrow> pydict \<times> string list" where
  "validate_loop [] cleaned flags = (cleaned, flags)"
| "validate_loop ((k, v) # items) cleaned flags =
     (if \<not> is_scalar v then validate_loop items cleaned (flags @ [''invalid_metric_type''])
      else validate_loop items (dict_set cleaned k v) flags)"

definition validate_metrics :: "pydict \<Rightarrow> pydict \<times> string list" where
  "validate_metrics metrics = validate_loop metrics [] []"

section \<open>normalizers.py\<close>

record location =
  name :: "string option"
  lat :: "pyfloat option"
  lon :: "pyfloat option"
  elevation_ft :: "int option"

text \<open>The dict a normalizer returns. \<open>quality_flags\<close> is set last; until then it is
  empty here (the key is missing in Python, and nothing reads it).\<close>

record fragment =
  provider_id :: string
  provider_name :: string
  record_type :: string
  region :: "string option"
  location :: location
  event_time :: "string option"
  severity :: string
  metrics :: pydict
  summary :: string
  quality_flags :: "string list"

text \<open>\<open>x1 or x2 or ... or xn\<close>: the first truthy operand, else the last one.\<close>

fun or_chain :: "pyval list \<Rightarrow> pyval" where
  "or_chain [] = PNone"
| "or_chain [x] = x"
| "or_chain (x # y # ys) = py_or x (or_chain (y # ys))"

text \<open>\<open>s or None\<close> for a \<open>str\<close>.\<close>

definition str_or_none :: "string \<Rightarrow> string option" where
  "str_or_none s = (if s = [] then None else Some s)"

text \<open>\<open>int(v) if v is not None else None\<close> inside \<open>try\<close> / \<open>except (ValueError,
  TypeError)\<close>.\<close>

definition coerce_int :: "pyval \<Rightarrow> exn + int option" where
  "coerce_int v =
     (if v = PNone then Inr None
      else case py_int v of
             Inr n \<Rightarrow> Inr (Some n)
           | Inl (ValueError m) \<Rightarrow> Inr None
           | Inl (TypeError m) \<Rightarrow> Inr None
           | Inl e \<Rightarrow> Inl e)"

definition build_location :: "pydict \<Rightarrow> exn + location" where
  "build_location payload =
     (case extract_coordinates payload of
        Inl e \<Rightarrow> Inl e
      | Inr (la, lo) \<Rightarrow>
          let loc_block = py_or (py_or (dict_get payload ''location'')
                                       (dict_get payload ''coordinates'')) (PDict []);
              loc_name0 = (case loc_block of
                             PDict b \<Rightarrow> str_or_none (safe_str (dict_get b ''name''))
                           | _ \<Rightarrow> None);
              elevation0 = (case loc_block of
                              PDict b \<Rightarrow> py_or (dict_get b ''elevation_ft'') (dict_get b ''elevation'')
                            | _ \<Rightarrow> PNone);
              loc_name = (case loc_name0 of
                            Some n \<Rightarrow> Some n
                          | None \<Rightarrow> str_or_none (safe_str (dict_get payload ''location_name'')));
              elevation1 = (if elevation0 = PNone
                            then py_or (dict_get payload ''elevation_ft'') (dict_get payload ''elevation'')
                            else elevation0)
          in (case coerce_int elevation1 of
                Inl e \<Rightarrow> Inl e
              | Inr el \<Rightarrow> Inr \<lparr>name = loc_name, lat = la, lon = lo, elevation_ft = el\<rparr>))"

definition collect_quality_flags :: "fragment \<Rightarrow> string list" where
  "collect_quality_flags record =
     (if lat (location record) = None \<or> lon (location record) = None
      then [''missing_coordinates''] else [])
     @ (if event_time record = None \<or> event_time record = Some []
        then [''missing_timestamp''] else [])
     @ (if severity record = ''unknown'' then [''unknown_severity''] else [])
     @ (if strip (summary record) = [] then [''empty_summary''] else [])"

text \<open>The loop \<open>for key in (...): val = payload.get(key); if val is not None:
  raw_metrics[key] = val\<close>.\<close>

fun overlay_loop :: "string list \<Rightarrow> pydict \<Rightarrow> pydict \<Rightarrow> pydict" where
  "overlay_loop [] payload raw_metrics = raw_metrics"
| "overlay_loop (key # keys) payload raw_metrics =
     (let val = dict_get payload key
      in overlay_loop keys payload
           (if val \<noteq> PNone then dict_set raw_metrics key val else raw_metrics))"

text \<open>
  \<open>raw_metrics = payload.get("metrics") or {}\<close>, reset to \<open>{}\<close> when it is not a dict,
  then the loop. When \<open>payload["metrics"]\<close> is a dict that is not empty, \<open>raw_metrics\<close>
  is that very object, and the assignments of the loop change it inside the payload:
  the second component is the payload as the call leaves it.
\<close>

definition overlay_metrics :: "string list \<Rightarrow> pydict \<Rightarrow> pydict \<times> pydict" where
  "overlay_metrics keys payload =
     (case py_or (dict_get payload ''metrics'') (PDict []) of
        PDict d \<Rightarrow>
          let raw_metrics = overlay_loop keys payload d
          in (raw_metrics,
              if truthy (dict_get payload ''metrics'')
              then dict_set payload ''metrics'' (PDict raw_metrics) else payload)
      | _ \<Rightarrow> (overlay_loop keys payload [], payload))"

text \<open>\<open>list(dict.fromkeys(flags))\<close>: the first occurrence of each flag, in order.\<close>

fun dedup :: "string list \<Rightarrow> string list" where
  "dedup [] = []"
| "dedup (x # xs) = x # dedup (filter (\<lambda>y. y \<noteq> x) xs)"

text \<open>
  The three normalizers are one text up to the record type and five tuples of keys;
  \<open>normalize_with\<close> is that text. The result is what the call returns or raises,
  and the payload as the call leaves it.
\<close>

definition normalize_with ::
  "string \<Rightarrow> string list \<Rightarrow> string list \<Rightarrow> string list \<Rightarrow> string list \<Rightarrow> string list
   \<Rightarrow> pydict \<Rightarrow> pydict \<Rightarrow> (exn + fragment) \<times> pydict" where
  "normalize_with rtype severity_keys time_keys summary_keys region_keys metric_keys
     payload provider_meta =
     (let raw_severity = or_chain (map (dict_get payload) severity_keys);
          raw_time = or_chain (map (dict_get payload) time_keys);
          summ = safe_str (or_chain (map (dict_get payload) summary_keys @ [PStr []]));
          reg = str_or_none (safe_str (or_chain (map (dict_get payload) region_keys @ [PStr []])));
          (raw_metrics, payload') = overlay_metrics metric_keys payload;
          (mets, metric_flags) = validate_metrics raw_metrics
      in case build_location payload' of
           Inl e \<Rightarrow> (Inl e, payload')
         | Inr loc \<Rightarrow>
             let record = \<lparr>provider_id = safe_str (dict_get provider_meta ''provider_id''),
                            provider_name = safe_str (dict_get provider_meta ''provider_name''),
                            record_type = rtype,
                            region = reg,
                            location = loc,
                            event_time = parse_timestamp raw_time,
                            severity = normalize_severity
                              (if raw_severity \<noteq> PNone then PStr (py_str raw_severity) else PNone),
                            metrics = mets,
                            summary = summ,
                            quality_flags = []\<rparr>;
                 flags = collect_quality_flags record @ metric_flags
             in (Inr (record\<lparr>quality_flags := dedup flags\<rparr>), payload'))"

definition normalize_bulletin :: "pydict \<Rightarrow> pydict \<Rightarrow> (exn + fragment) \<times> pydict" where
  "normalize_bulletin =
     normalize_with ''bulletin''
       [''danger'', ''avalanche_danger'', ''severity'', ''danger_level'']
       [''issued_at'', ''timestamp'', ''valid_time'', ''date'']
       [''summary'', ''headline'', ''description'', ''text'']
       [''region'', ''zone'', ''area'']
       [''rose'', ''aspects'', ''elevation_bands'', ''travel_advice'']"

definition normalize_observation :: "pydict \<Rightarrow> pydict \<Rightarrow> (exn + fragment) \<times> pydict" where
  "normalize_observation =
     normalize_with ''observation''
       [''severity'', ''danger'', ''hazard_level'', ''risk'']
       [''observed_at'', ''timestamp'', ''date'', ''time'']
       [''summary'', ''notes'', ''description'', ''observation'']
       [''region'', ''zone'', ''area'']
       [''snow_depth_cm'', ''new_snow_cm'', ''wind_speed_mph'', ''temperature_f'', ''aspect'',
        ''slope_angle'']"

definition normalize_weather :: "pydict \<Rightarrow> pydict \<Rightarrow> (exn + fragment) \<times> pydict" where
  "normalize_weather =
     normalize_with ''weather''
       [''severity'', ''alert_level'', ''warning_level'']
       [''recorded_at'', ''timestamp'', ''observation_time'', ''time'', ''date'']
       [''summary'', ''conditions'', ''description'']
       [''region'', ''zone'', ''station_region'']
       [''temperature_f'', ''temperature_c'', ''wind_speed_mph'', ''wind_gust_mph'',
        ''wind_direction'', ''relative_humidity'', ''snow_depth_cm'', ''new_snow_cm'',
        ''pressure_mb'', ''visibility_miles'']"

definition NORMALIZERS :: "(string \<times> (pydict \<Rightarrow> pydict \<Rightarrow> (exn + fragment) \<times> pydict)) list" where
  "NORMALIZERS =
     [(''bulletin'', normalize_bulletin), (''observation'', normalize_observation),
      (''weather'', normalize_weather)]"

definition unsupported_message :: "string \<Rightarrow> string" where
  "unsupported_message rt =
     ''Unsupported record_type: '' @ [CHR 0x27] @ rt @ [CHR 0x27] @ ''. Supported: ''
     @ py_repr (PList (map (PStr \<circ> fst) NORMALIZERS))"

definition dispatch_normalizer :: "string \<Rightarrow> pydict \<Rightarrow> pydict \<Rightarrow> (exn + fragment) \<times> pydict" where
  "dispatch_normalizer rt payload provider_meta =
     (case map_of NORMALIZERS rt of
        None \<Rightarrow> (Inl (ValueError (unsupported_message rt)), payload)
      | Some normalizer \<Rightarrow> normalizer payload provider_meta)"

section \<open>routes.py\<close>

record ingest_request =
  req_provider_id :: string
  req_provider_name :: string
  req_record_type :: string
  req_payload :: pydict

text \<open>
  A row of \<open>normalized_records\<close>: the fragment with \<open>record_id\<close>, \<open>ingested_at\<close> and the
  raw payload. The JSON columns hold what \<open>json.dumps\<close> was given, and the schema object
  built from a row by \<open>_record_to_schema\<close> has the row's fields with the JSON text decoded
  again, so one record type stands for both.
\<close>

record normalized_record = fragment +
  record_id :: string
  ingested_at :: string
  raw_payload :: pydict

text \<open>The store: the rows added so far, and how many times \<open>uuid.uuid4()\<close> and
  \<open>now_iso()\<close> were drawn. What the \<open>n\<close>-th draw returns is a parameter of the model.\<close>

record db_state =
  rows :: "normalized_record list"
  draws :: nat

definition process_ingest ::
  "(nat \<Rightarrow> string) \<Rightarrow> (nat \<Rightarrow> string) \<Rightarrow> ingest_request \<Rightarrow> db_state
   \<Rightarrow> (exn + normalized_record) \<times> db_state" where
  "process_ingest uuid4 now_iso req db =
     (let provider_meta = [(''provider_id'', PStr (req_provider_id req)),
                           (''provider_name'', PStr (req_provider_name req))];
          (res, payload') = dispatch_normalizer (req_record_type req) (req_payload req) provider_meta
      in case res of
           Inl e \<Rightarrow> (Inl e, db)
         | Inr normalized \<Rightarrow>
             let db_record = \<lparr>provider_id = provider_id normalized,
                               provider_name = provider_name normalized,
                               record_type = record_type normalized,
                               region = region normalized,
                               location = location normalized,
                               event_time = event_time normalized,
                               severity = severity normalized,
                               metrics = metrics normalized,
                               summary = summary normalized,
                               quality_flags = quality_flags normalized,
                               record_id = uuid4 (draws db),
                               ingested_at = now_iso (draws db),
                               raw_payload = payload'\<rparr>
             in (Inr db_record, db\<lparr>rows := rows db @ [db_record], draws := Suc (draws db)\<rparr>))"

definition record_to_schema :: "normalized_record \<Rightarrow> normalized_record" where
  "record_to_schema r = r"

record batch_record_result =
  success :: bool
  result_record :: "normalized_record option"
  error :: "string option"

record batch_ingest_response =
  total_count :: int
  success_count :: int
  failed_count :: int
  results :: "batch_record_result list"

text \<open>The loop of \<open>ingest_batch\<close> over \<open>req.records\<close>, with \<open>results\<close> and
  \<open>success_count\<close> as they stand; \<open>except Exception\<close> takes every exception.\<close>

fun batch_loop ::
  "(nat \<Rightarrow> string) \<Rightarrow> (nat \<Rightarrow> string) \<Rightarrow> ingest_request list \<Rightarrow> db_state
   \<Rightarrow> batch_record_result list \<Rightarrow> int \<Rightarrow> (batch_record_result list \<times> int) \<times> db_state" where
  "batch_loop uuid4 now_iso [] db res sc = ((res, sc), db)"
| "batch_loop uuid4 now_iso (item # items) db res sc =
     (case process_ingest uuid4 now_iso item db of
        (Inr db_record, db') \<Rightarrow>
          batch_loop uuid4 now_iso items db'
            (res @ [\<lparr>success = True, result_record = Some (record_to_schema db_record),
                      error = None\<rparr>])
            (sc + 1)
      | (Inl exc, db') \<Rightarrow>
          batch_loop uuid4 now_iso items db'
            (res @ [\<lparr>success = False, result_record = None, error = Some (exn_str exc)\<rparr>])
            sc)"

definition ingest_batch ::
  "(nat \<Rightarrow> string) \<Rightarrow> (nat \<Rightarrow> string) \<Rightarrow> ingest_request list \<Rightarrow> db_state
   \<Rightarrow> batch_ingest_response \<times> db_state" where
  "ingest_batch uuid4 now_iso records db =
     (case batch_loop uuid4 now_iso records db [] 0 of
        ((res, sc), db') \<Rightarrow>
          (\<lparr>total_count = int (length records),
            success_count = sc,
            failed_count = int (length records) - sc,
            results = res\<rparr>, db'))"

section \<open>The specification's tables and words\<close>

text \<open>The record types the dispatcher knows, and the candidate keys of each type as the
  specification tabulates them.\<close>

definition SUPPORTED_TYPES :: "string list" where
  "SUPPORTED_TYPES = [''bulletin'', ''observation'', ''weather'']"

definition SEVERITY_KEYS :: "string \<Rightarrow> string list" where
  "SEVERITY_KEYS rt =
     (if rt = ''bulletin'' then [''danger'', ''avalanche_danger'', ''severity'', ''danger_level'']
      else if rt = ''observation'' then [''severity'', ''danger'', ''hazard_level'', ''risk'']
      else if rt = ''weather'' then [''severity'', ''alert_level'', ''warning_level'']
      else [])"

definition TIME_KEYS :: "string \<Rightarrow> string list" where
  "TIME_KEYS rt =
     (if rt = ''bulletin'' then [''issued_at'', ''timestamp'', ''valid_time'', ''date'']
      else if rt = ''observation'' then [''observed_at'', ''timestamp'', ''date'', ''time'']
      else if rt = ''weather''
        then [''recorded_at'', ''timestamp'', ''observation_time'', ''time'', ''date'']
      else [])"

definition SUMMARY_KEYS :: "string \<Rightarrow> string list" where
  "SUMMARY_KEYS rt =
     (if rt = ''bulletin'' then [''summary'', ''headline'', ''description'', ''text'']
      else if rt = ''observation'' then [''summary'', ''notes'', ''description'', ''observation'']
      else if rt = ''weather'' then [''summary'', ''conditions'', ''description'']
      else [])"

definition REGION_KEYS :: "string \<Rightarrow> string list" where
  "REGION_KEYS rt =
     (if rt = ''bulletin'' then [''region'', ''zone'', ''area'']
      else if rt = ''observation'' then [''region'', ''zone'', ''area'']
      else if rt = ''weather'' then [''region'', ''zone'', ''station_region'']
      else [])"

definition METRIC_KEYS :: "string \<Rightarrow> string list" where
  "METRIC_KEYS rt =
     (if rt = ''bulletin'' then [''rose'', ''aspects'', ''elevation_bands'', ''travel_advice'']
      else if rt = ''observation''
        then [''snow_depth_cm'', ''new_snow_cm'', ''wind_speed_mph'', ''temperature_f'',
              ''aspect'', ''slope_angle'']
      else if rt = ''weather''
        then [''temperature_f'', ''temperature_c'', ''wind_speed_mph'', ''wind_gust_mph'',
              ''wind_direction'', ''relative_humidity'', ''snow_depth_cm'', ''new_snow_cm'',
              ''pressure_mb'', ''visibility_miles'']
      else [])"

text \<open>A value that is there: not null and not an empty string, list or mapping.\<close>

fun non_empty :: "pyval \<Rightarrow> bool" where
  "non_empty PNone = False"
| "non_empty (PStr s) = (s \<noteq> [])"
| "non_empty (PList xs) = (xs \<noteq> [])"
| "non_empty (PDict d) = (d \<noteq> [])"
| "non_empty v = True"

text \<open>A number that is zero, or \<open>False\<close>.\<close>

fun zero_like :: "pyval \<Rightarrow> bool" where
  "zero_like (PBool b) = (\<not> b)"
| "zero_like (PInt n) = (n = 0)"
| "zero_like (PFloat f) = float_is_zero f"
| "zero_like v = False"

text \<open>The metric a key ends up with before validation, in the specification's words:
  the top-level value when the key is one of the type's metric keys and the payload has
  a value for it, else the entry of the \<open>metrics\<close> sub-mapping when that is a mapping.\<close>

definition spec_raw_metric :: "string \<Rightarrow> pydict \<Rightarrow> string \<Rightarrow> pyval option" where
  "spec_raw_metric rt payload k =
     (if k \<in> set (METRIC_KEYS rt) \<and> dict_get payload k \<noteq> PNone then Some (dict_get payload k)
      else case dict_get payload ''metrics'' of PDict d \<Rightarrow> map_of d k | _ \<Rightarrow> None)"

text \<open>The keys of the \<open>metrics\<close> sub-mapping are distinct, as in any Python \<open>dict\<close>.\<close>

definition metrics_well_formed :: "pydict \<Rightarrow> bool" where
  "metrics_well_formed payload =
     (case dict_get payload ''metrics'' of PDict d \<Rightarrow> distinct (map fst d) | _ \<Rightarrow> True)"

text \<open>The elevation candidates in the order the specification probes them: the nested
  block's \<open>elevation_ft\<close> and \<open>elevation\<close> when \<open>location\<close> (else \<open>coordinates\<close>) is a
  mapping, then the top-level \<open>elevation_ft\<close> and \<open>elevation\<close>.\<close>

definition elevation_candidates :: "pydict \<Rightarrow> pyval list" where
  "elevation_candidates payload =
     (case py_or (dict_get payload ''location'') (dict_get payload ''coordinates'') of
        PDict b \<Rightarrow> [dict_get b ''elevation_ft'', dict_get b ''elevation'']
      | _ \<Rightarrow> [])
     @ [dict_get payload ''elevation_ft'', dict_get payload ''elevation'']"

text \<open>The integer a candidate is coerced to, null when it has none: an integer as it is
  (\<open>True\<close> is 1), a finite float cut towards zero, a string parsed as a decimal integer.\<close>

fun int_coercion :: "pyval \<Rightarrow> int option" where
  "int_coercion (PBool b) = Some (if b then 1 else 0)"
| "int_coercion (PInt n) = Some n"
| "int_coercion (PFloat (Finite m e)) = Some (float_trunc m e)"
| "int_coercion (PStr s) = int_of_str s"
| "int_coercion v = None"

text \<open>The provider metadata the request boundary builds from a request.\<close>

definition provider_meta_of :: "ingest_request \<Rightarrow> pydict" where
  "provider_meta_of req =
     [(''provider_id'', PStr (req_provider_id req)),
      (''provider_name'', PStr (req_provider_name req))]"

text \<open>The dict \<open>record\<close> of a normalizer as it is assembled, before the flags are set.\<close>

definition assembled_record ::
  "string \<Rightarrow> string list \<Rightarrow> string list \<Rightarrow> string list \<Rightarrow> string list \<Rightarrow> string list
   \<Rightarrow> pydict \<Rightarrow> pydict \<Rightarrow> location \<Rightarrow> fragment" where
  "assembled_record rt sk tk smk rk mk p meta loc =
     \<lparr>provider_id = safe_str (dict_get meta ''provider_id''),
      provider_name = safe_str (dict_get meta ''provider_name''),
      record_type = rt,
      region = str_or_none (safe_str (or_chain (map (dict_get p) rk @ [PStr []]))),
      location = loc,
      event_time = parse_timestamp (or_chain (map (dict_get p) tk)),
      severity = normalize_severity
        (if or_chain (map (dict_get p) sk) \<noteq> PNone
         then PStr (py_str (or_chain (map (dict_get p) sk))) else PNone),
      metrics = fst (validate_metrics (fst (overlay_metrics mk p))),
      summary = safe_str (or_chain (map (dict_get p) smk @ [PStr []])),
      quality_flags = []\<rparr>"

text \<open>What the dispatcher makes of a request taken alone, and the entry of the batch
  response that belongs to a request: a success whose record carries that fragment and
  that payload.\<close>

definition normalized_of :: "ingest_request \<Rightarrow> (exn + fragment) \<times> pydict" where
  "normalized_of req =
     dispatch_normalizer (req_record_type req) (req_payload req) (provider_meta_of req)"

definition entry_of :: "ingest_request \<Rightarrow> batch_record_result \<Rightarrow> bool" where
  "entry_of req r =
     (success r \<and> error r = None
      \<and> (case result_record r of
            None \<Rightarrow> False
          | Some row \<Rightarrow> (Inr (fragment.truncate row), raw_payload row) = normalized_of req))"

section \<open>Facts about the model\<close>

lemma dict_get_dict_set: "dict_get (dict_set d k v) k' = (if k' = k then v else dict_get d k')"
  by (induction d) (auto simp: dict_get_def)

lemma map_of_dict_set: "map_of (dict_set d k v) = (map_of d)(k \<mapsto> v)"
  by (induction d) auto

lemma keys_dict_set:
  "map fst (dict_set d k v) = (if k \<in> fst ` set d then map fst d else map fst d @ [k])"
proof (cases "k \<in> fst ` set d")
  case True
  then have "map fst (dict_set d k v) = map fst d"
    by (induction d) force+
  with True show ?thesis by simp
next
  case False
  then have "map fst (dict_set d k v) = map fst d @ [k]"
    by (induction d) auto
  with False show ?thesis by simp
qed

lemma distinct_dict_set: "distinct (map fst d) \<Longrightarrow> distinct (map fst (dict_set d k v))"
  by (simp add: keys_dict_set)

lemma snd_overlay_metrics_get:
  "k \<noteq> ''metrics'' \<Longrightarrow> dict_get (snd (overlay_metrics keys p)) k = dict_get p k"
  by (auto simp: overlay_metrics_def Let_def dict_get_dict_set split: pyval.splits)

lemma build_location_cong:
  assumes "\<And>k. k \<noteq> ''metrics'' \<Longrightarrow> dict_get p' k = dict_get p k"
  shows "build_location p' = build_location p"
proof -
  have g: "dict_get p' ''lat'' = dict_get p ''lat''"
    "dict_get p' ''latitude'' = dict_get p ''latitude''"
    "dict_get p' ''lon'' = dict_get p ''lon''"
    "dict_get p' ''longitude'' = dict_get p ''longitude''"
    "dict_get p' ''location'' = dict_get p ''location''"
    "dict_get p' ''coordinates'' = dict_get p ''coordinates''"
    "dict_get p' ''location_name'' = dict_get p ''location_name''"
    "dict_get p' ''elevation_ft'' = dict_get p ''elevation_ft''"
    "dict_get p' ''elevation'' = dict_get p ''elevation''"
    by (simp_all add: assms)
  show ?thesis
    unfolding build_location_def extract_coordinates_def g ..
qed

lemma build_location_overlay: "build_location (snd (overlay_metrics keys p)) = build_location p"
  by (rule build_location_cong) (rule snd_overlay_metrics_get)

text \<open>What a normalizer returns, by what \<open>_build_location\<close> does on the payload.\<close>

lemma normalize_with_Inl:
  "build_location p = Inl e \<Longrightarrow>
   normalize_with rt sk tk smk rk mk p meta = (Inl e, snd (overlay_metrics mk p))"
  by (simp add: normalize_with_def Let_def build_location_overlay case_prod_beta)

lemma normalize_with_Inr:
  "build_location p = Inr loc \<Longrightarrow>
   normalize_with rt sk tk smk rk mk p meta =
     (Inr ((assembled_record rt sk tk smk rk mk p meta loc)
             \<lparr>quality_flags :=
                dedup (collect_quality_flags (assembled_record rt sk tk smk rk mk p meta loc)
                       @ snd (validate_metrics (fst (overlay_metrics mk p))))\<rparr>),
      snd (overlay_metrics mk p))"
  by (simp add: normalize_with_def assembled_record_def Let_def build_location_overlay
      case_prod_beta)

lemma assembled_record_fields:
  "record_type (assembled_record rt sk tk smk rk mk p meta loc) = rt"
  "location (assembled_record rt sk tk smk rk mk p meta loc) = loc"
  "event_time (assembled_record rt sk tk smk rk mk p meta loc) =
     parse_timestamp (or_chain (map (dict_get p) tk))"
  "metrics (assembled_record rt sk tk smk rk mk p meta loc) =
     fst (validate_metrics (fst (overlay_metrics mk p)))"
  by (simp_all add: assembled_record_def)

text \<open>The dispatcher on a supported type is the one text of the normalizers on the
  specification's tables for that type.\<close>

lemma dispatch_supported:
  "rt \<in> set SUPPORTED_TYPES \<Longrightarrow>
   dispatch_normalizer rt =
     normalize_with rt (SEVERITY_KEYS rt) (TIME_KEYS rt) (SUMMARY_KEYS rt) (REGION_KEYS rt)
       (METRIC_KEYS rt)"
  by (auto simp: SUPPORTED_TYPES_def dispatch_normalizer_def NORMALIZERS_def fun_eq_iff
      normalize_bulletin_def normalize_observation_def normalize_weather_def
      SEVERITY_KEYS_def TIME_KEYS_def SUMMARY_KEYS_def REGION_KEYS_def METRIC_KEYS_def)

lemma dispatch_unsupported:
  "rt \<notin> set SUPPORTED_TYPES \<Longrightarrow>
   dispatch_normalizer rt payload meta = (Inl (ValueError (unsupported_message rt)), payload)"
  by (simp add: SUPPORTED_TYPES_def dispatch_normalizer_def NORMALIZERS_def)

lemma dispatch_Inr_supported:
  "dispatch_normalizer rt payload meta = (Inr f, p') \<Longrightarrow> rt \<in> set SUPPORTED_TYPES"
  using dispatch_unsupported[of rt payload meta] by auto

text \<open>What \<open>_process_ingest\<close> does, by what the dispatcher does on the request.\<close>

lemma process_ingest_Inl:
  "normalized_of req = (Inl e, p') \<Longrightarrow> process_ingest uuid4 now_iso req db = (Inl e, db)"
  by (simp add: process_ingest_def provider_meta_of_def normalized_of_def)

lemma process_ingest_Inr:
  "normalized_of req = (Inr f, p')
   \<Longrightarrow> \<exists>row. process_ingest uuid4 now_iso req db =
           (Inr row, db\<lparr>rows := rows db @ [row], draws := Suc (draws db)\<rparr>)
         \<and> fragment.truncate row = f \<and> raw_payload row = p'
         \<and> record_id row = uuid4 (draws db) \<and> ingested_at row = now_iso (draws db)"
  by (simp add: process_ingest_def provider_meta_of_def normalized_of_def Let_def
      fragment.truncate_def)

text \<open>\<open>list(dict.fromkeys(flags))\<close> on the flags of a normalizer.\<close>

lemma dedup_replicate: "dedup (replicate n x) = (if n = 0 then [] else [x])"
  by (cases n) simp_all

lemma filter_neq_id: "a \<notin> set xs \<Longrightarrow> filter (\<lambda>y. y \<noteq> a) xs = xs"
  by (induction xs) auto

lemma dedup_append_replicate:
  "distinct xs \<Longrightarrow> x \<notin> set xs \<Longrightarrow>
   dedup (xs @ replicate n x) = xs @ (if n = 0 then [] else [x])"
proof (induction xs)
  case Nil
  then show ?case by (simp add: dedup_replicate)
next
  case (Cons a xs)
  then have "filter (\<lambda>y. y \<noteq> a) (xs @ replicate n x) = xs @ replicate n x"
    by (intro filter_neq_id) auto
  with Cons show ?case by simp
qed

lemma validate_loop_flags:
  "snd (validate_loop items cleaned flags) =
     flags @ replicate (length (filter (\<lambda>kv. \<not> is_scalar (snd kv)) items)) ''invalid_metric_type''"
  by (induction items arbitrary: cleaned flags) (auto simp: replicate_append_same)

lemma validate_metrics_flags:
  "snd (validate_metrics m) =
     replicate (length (filter (\<lambda>kv. \<not> is_scalar (snd kv)) m)) ''invalid_metric_type''"
  by (simp add: validate_metrics_def validate_loop_flags)

lemma collect_quality_flags_distinct:
  "distinct (collect_quality_flags r) \<and> ''invalid_metric_type'' \<notin> set (collect_quality_flags r)"
  by (auto simp: collect_quality_flags_def)

lemma collect_quality_flags_cong:
  "location r' = location r \<Longrightarrow> event_time r' = event_time r \<Longrightarrow> severity r' = severity r
   \<Longrightarrow> summary r' = summary r \<Longrightarrow> collect_quality_flags r' = collect_quality_flags r"
  by (simp add: collect_quality_flags_def)

text \<open>The flags of a fragment: the flags of the collector on the fragment itself, then the
  one flag of metric validation when it raised any.\<close>

lemma normalize_with_flags:
  assumes "normalize_with rt sk tk smk rk mk p meta = (Inr f, p')"
  shows "quality_flags f =
           collect_quality_flags f
           @ (if snd (validate_metrics (fst (overlay_metrics mk p))) = [] then []
              else [''invalid_metric_type''])"
proof (cases "build_location p")
  case (Inl e)
  with assms show ?thesis
    by (simp add: normalize_with_Inl)
next
  case (Inr loc)
  let ?n = "length (filter (\<lambda>kv. \<not> is_scalar (snd kv)) (fst (overlay_metrics mk p)))"
  define r where "r = assembled_record rt sk tk smk rk mk p meta loc"
  from assms Inr have
    f: "f = r\<lparr>quality_flags := dedup (collect_quality_flags r
                 @ snd (validate_metrics (fst (overlay_metrics mk p))))\<rparr>"
    by (simp add: normalize_with_Inr r_def)
  have c: "collect_quality_flags f = collect_quality_flags r"
    by (rule collect_quality_flags_cong) (simp_all add: f)
  have "quality_flags f = dedup (collect_quality_flags r @ replicate ?n ''invalid_metric_type'')"
    by (simp add: f validate_metrics_flags)
  also have "\<dots> = collect_quality_flags r @ (if ?n = 0 then [] else [''invalid_metric_type''])"
    using collect_quality_flags_distinct[of r] by (intro dedup_append_replicate) simp_all
  finally show ?thesis
    by (simp add: c validate_metrics_flags)
qed

lemma build_location_empty:
  "build_location [] = Inr \<lparr>name = None, lat = None, lon = None, elevation_ft = None\<rparr>"
  by (simp add: build_location_def extract_coordinates_def dict_get_def py_or_def
      coerce_float_def coerce_int_def safe_str_def str_or_none_def)

text \<open>The overlay loop and the validation loop as maps.\<close>

lemma overlay_loop_map_of:
  "map_of (overlay_loop keys p d) k =
     (if k \<in> set keys \<and> dict_get p k \<noteq> PNone then Some (dict_get p k) else map_of d k)"
  by (induction keys arbitrary: d) (auto simp: Let_def map_of_dict_set)

lemma overlay_loop_distinct:
  "distinct (map fst d) \<Longrightarrow> distinct (map fst (overlay_loop keys p d))"
  by (induction keys arbitrary: d) (auto simp: Let_def distinct_dict_set)

lemma fst_overlay_metrics:
  "fst (overlay_metrics keys p) =
     overlay_loop keys p (case dict_get p ''metrics'' of PDict d \<Rightarrow> d | _ \<Rightarrow> [])"
  by (cases "dict_get p ''metrics''") (auto simp: overlay_metrics_def py_or_def Let_def)

lemma validate_loop_map_of:
  "distinct (map fst items) \<Longrightarrow>
   map_of (fst (validate_loop items cleaned flags)) k =
     (case map_of items k of
        Some v \<Rightarrow> if is_scalar v then Some v else map_of cleaned k
      | None \<Rightarrow> map_of cleaned k)"
proof (induction items arbitrary: cleaned flags k)
  case Nil
  then show ?case by simp
next
  case (Cons kv items)
  obtain k0 v0 where kv: "kv = (k0, v0)"
    by (cases kv)
  from Cons.prems kv have n: "map_of items k0 = None" and d: "distinct (map fst items)"
    by (auto simp: map_of_eq_None_iff)
  show ?case
  proof (cases "k = k0")
    case True
    with n show ?thesis
      by (simp add: kv Cons.IH[OF d] map_of_dict_set)
  next
    case False
    then show ?thesis
      by (simp add: kv Cons.IH[OF d] map_of_dict_set split: option.splits)
  qed
qed

lemma validate_metrics_map_of:
  "distinct (map fst m) \<Longrightarrow>
   map_of (fst (validate_metrics m)) k =
     (case map_of m k of Some v \<Rightarrow> if is_scalar v then Some v else None | None \<Rightarrow> None)"
  by (simp add: validate_metrics_def validate_loop_map_of split: option.splits)

lemma validate_metrics_flagged:
  "distinct (map fst m) \<Longrightarrow>
   (snd (validate_metrics m) \<noteq> []) = (\<exists>k v. map_of m k = Some v \<and> \<not> is_scalar v)"
proof -
  assume d: "distinct (map fst m)"
  have "(snd (validate_metrics m) \<noteq> []) = (\<exists>kv \<in> set m. \<not> is_scalar (snd kv))"
    by (simp add: validate_metrics_flags filter_empty_conv)
  also have "\<dots> = (\<exists>k v. map_of m k = Some v \<and> \<not> is_scalar v)"
    using d by force
  finally show ?thesis .
qed

lemma build_location_big_lat:
  "build_location [(''lat'', PInt (10 ^ 400))] =
     Inl (OverflowError ''int too large to convert to float'')"
  by (simp add: build_location_def extract_coordinates_def dict_get_def py_or_def
      coerce_float_def FLOAT_LIMIT_def)

section \<open>C1: the raw payload that is stored\<close>

text \<open>
  C1 says that normalization leaves the payload as it was submitted, so that the raw payload
  stored after it is what the caller supplied, also when a nested \<open>metrics\<close> mapping comes
  with top-level metric keys. On the request of type \<open>bulletin\<close> with the payload
  \<open>{"metrics": {"a": 1}, "rose": "N"}\<close> the row that \<open>_process_ingest\<close> stores holds the raw
  payload \<open>{"metrics": {"a": 1, "rose": "N"}, "rose": "N"}\<close>: the overlay loop assigns into the
  dict of the payload itself, and \<open>json.dumps(req.payload)\<close> runs after the normalizer.
\<close>

lemma build_location_metrics_rose:
  "build_location [(''metrics'', PDict [(''a'', PInt 1)]), (''rose'', PStr ''N'')] =
     Inr \<lparr>name = None, lat = None, lon = None, elevation_ft = None\<rparr>"
  by (simp add: build_location_def extract_coordinates_def dict_get_def py_or_def
      coerce_float_def coerce_int_def safe_str_def str_or_none_def)

lemma overlay_metrics_rose:
  "snd (overlay_metrics (METRIC_KEYS ''bulletin'')
          [(''metrics'', PDict [(''a'', PInt 1)]), (''rose'', PStr ''N'')]) =
     [(''metrics'', PDict [(''a'', PInt 1), (''rose'', PStr ''N'')]), (''rose'', PStr ''N'')]"
  by (simp add: overlay_metrics_def METRIC_KEYS_def dict_get_def py_or_def Let_def)

theorem C1_stored_raw_payload_differs:
  "map_sum id raw_payload
     (fst (process_ingest uuid4 now_iso
        \<lparr>req_provider_id = pid, req_provider_name = pname, req_record_type = ''bulletin'',
         req_payload = [(''metrics'', PDict [(''a'', PInt 1)]), (''rose'', PStr ''N'')]\<rparr> db)) =
   Inr [(''metrics'', PDict [(''a'', PInt 1), (''rose'', PStr ''N'')]), (''rose'', PStr ''N'')]"
proof -
  let ?req = "\<lparr>req_provider_id = pid, req_provider_name = pname, req_record_type = ''bulletin'',
         req_payload = [(''metrics'', PDict [(''a'', PInt 1)]), (''rose'', PStr ''N'')]\<rparr>"
  have s: "''bulletin'' \<in> set SUPPORTED_TYPES"
    by (simp add: SUPPORTED_TYPES_def)
  obtain f where
    "normalized_of ?req =
       (Inr f, [(''metrics'', PDict [(''a'', PInt 1), (''rose'', PStr ''N'')]), (''rose'', PStr ''N'')])"
    by (simp add: normalized_of_def dispatch_supported[OF s]
        normalize_with_Inr[OF build_location_metrics_rose] overlay_metrics_rose)
  from process_ingest_Inr[OF this, of uuid4 now_iso db] show ?thesis
    by auto
qed

text \<open>The payload is left as it was when it has no \<open>metrics\<close> mapping, or an empty one.\<close>

lemma overlay_metrics_payload_unchanged:
  "\<not> truthy (dict_get p ''metrics'') \<or> \<not> is_dict (dict_get p ''metrics'')
   \<Longrightarrow> snd (overlay_metrics keys p) = p"
  by (cases "dict_get p ''metrics''") (auto simp: overlay_metrics_def py_or_def)

section \<open>C2: the quality flags\<close>

text \<open>
  C2: the quality flags of a fragment are, in this order, \<open>missing_coordinates\<close> when its
  \<open>lat\<close> or \<open>lon\<close> is null, \<open>missing_timestamp\<close> when its \<open>event_time\<close> is null or empty,
  \<open>unknown_severity\<close> when its severity is \<open>unknown\<close>, \<open>empty_summary\<close> when its summary is
  empty or white space, and then \<open>invalid_metric_type\<close> once when metric validation raised
  that flag; no flag occurs twice. The payload \<open>{}\<close> as a bulletin has exactly the first
  four, in that order.
\<close>

theorem C2_quality_flags:
  "(dispatch_normalizer rt payload meta = (Inr f, p') \<longrightarrow>
      quality_flags f =
        (if lat (location f) = None \<or> lon (location f) = None
         then [''missing_coordinates''] else [])
        @ (if event_time f = None \<or> event_time f = Some [] then [''missing_timestamp''] else [])
        @ (if severity f = ''unknown'' then [''unknown_severity''] else [])
        @ (if strip (summary f) = [] then [''empty_summary''] else [])
        @ (if snd (validate_metrics (fst (overlay_metrics (METRIC_KEYS rt) payload))) = [] then []
           else [''invalid_metric_type''])
      \<and> set (snd (validate_metrics (fst (overlay_metrics (METRIC_KEYS rt) payload))))
            \<subseteq> {''invalid_metric_type''}
      \<and> distinct (quality_flags f))
   \<and> map_sum id quality_flags (fst (normalize_bulletin [] meta)) =
       Inr [''missing_coordinates'', ''missing_timestamp'', ''unknown_severity'', ''empty_summary'']"
proof (intro conjI impI)
  assume d: "dispatch_normalizer rt payload meta = (Inr f, p')"
  then have s: "rt \<in> set SUPPORTED_TYPES"
    by (rule dispatch_Inr_supported)
  from d have n: "normalize_with rt (SEVERITY_KEYS rt) (TIME_KEYS rt) (SUMMARY_KEYS rt)
      (REGION_KEYS rt) (METRIC_KEYS rt) payload meta = (Inr f, p')"
    by (simp add: dispatch_supported[OF s])
  show q: "quality_flags f =
        (if lat (location f) = None \<or> lon (location f) = None
         then [''missing_coordinates''] else [])
        @ (if event_time f = None \<or> event_time f = Some [] then [''missing_timestamp''] else [])
        @ (if severity f = ''unknown'' then [''unknown_severity''] else [])
        @ (if strip (summary f) = [] then [''empty_summary''] else [])
        @ (if snd (validate_metrics (fst (overlay_metrics (METRIC_KEYS rt) payload))) = [] then []
           else [''invalid_metric_type''])"
    using normalize_with_flags[OF n] by (simp add: collect_quality_flags_def)
  show "set (snd (validate_metrics (fst (overlay_metrics (METRIC_KEYS rt) payload))))
            \<subseteq> {''invalid_metric_type''}"
    by (auto simp: validate_metrics_flags)
  show "distinct (quality_flags f)"
    using collect_quality_flags_distinct[of f] by (simp add: normalize_with_flags[OF n])
next
  show "map_sum id quality_flags (fst (normalize_bulletin [] meta)) =
       Inr [''missing_coordinates'', ''missing_timestamp'', ''unknown_severity'', ''empty_summary'']"
    by (simp add: normalize_bulletin_def normalize_with_Inr[OF build_location_empty] Let_def
        assembled_record_def overlay_metrics_def validate_metrics_def dict_get_def py_or_def
        collect_quality_flags_def normalize_severity_def safe_str_def py_str_def strip_def)
qed

lemma dispatch_bulletin_empty:
  "dispatch_normalizer ''bulletin'' [] [] =
     (Inr \<lparr>provider_id = [], provider_name = [], record_type = ''bulletin'', region = None,
            location = \<lparr>name = None, lat = None, lon = None, elevation_ft = None\<rparr>,
            event_time = None, severity = ''unknown'', metrics = [], summary = [],
            quality_flags = [''missing_coordinates'', ''missing_timestamp'', ''unknown_severity'',
                             ''empty_summary'']\<rparr>, [])"
  by (simp add: dispatch_normalizer_def NORMALIZERS_def normalize_bulletin_def
      normalize_with_Inr[OF build_location_empty] Let_def assembled_record_def
      overlay_metrics_def validate_metrics_def dict_get_def py_or_def collect_quality_flags_def
      normalize_severity_def safe_str_def py_str_def strip_def str_or_none_def)

theorem C2_quality_flags_witness:
  "dispatch_normalizer ''bulletin'' [] [] =
     (Inr \<lparr>provider_id = [], provider_name = [], record_type = ''bulletin'', region = None,
            location = \<lparr>name = None, lat = None, lon = None, elevation_ft = None\<rparr>,
            event_time = None, severity = ''unknown'', metrics = [], summary = [],
            quality_flags = [''missing_coordinates'', ''missing_timestamp'', ''unknown_severity'',
                             ''empty_summary'']\<rparr>, [])
   \<and> distinct [''missing_coordinates'', ''missing_timestamp'', ''unknown_severity'',
                 ''empty_summary'']"
  using C2_quality_flags[of "''bulletin''" "[]" "[]"
      "\<lparr>provider_id = [], provider_name = [], record_type = ''bulletin'', region = None,
        location = \<lparr>name = None, lat = None, lon = None, elevation_ft = None\<rparr>,
        event_time = None, severity = ''unknown'', metrics = [], summary = [],
        quality_flags = [''missing_coordinates'', ''missing_timestamp'', ''unknown_severity'',
                         ''empty_summary'']\<rparr>" "[]"]
    dispatch_bulletin_empty
  by simp

section \<open>C3: coordinate extraction\<close>

text \<open>
  C3 says that a payload with a top-level \<open>lat\<close> and no \<open>lon\<close> yields the float value of
  \<open>lat\<close> and null, \<open>lat = 0\<close> included. On the payload \<open>{"lat": 0}\<close> the code yields
  null for both: \<open>payload.get("lat") or payload.get("latitude")\<close> takes the falsy \<open>0\<close>
  for a missing value. The same \<open>0\<close> under the key \<open>latitude\<close>, the last operand of the
  \<open>or\<close>, is kept and yields \<open>0.0\<close>.
\<close>

theorem C3_lat_zero_dropped:
  "extract_coordinates [(''lat'', PInt 0)] = Inr (None, None)
   \<and> extract_coordinates [(''latitude'', PInt 0)] = Inr (Some (Finite 0 0), None)"
  by (simp add: extract_coordinates_def dict_get_def py_or_def coerce_float_def FLOAT_LIMIT_def)

section \<open>C6: the dispatcher\<close>

text \<open>
  C6 says that the dispatcher returns a fragment for every payload when the record type is
  supported. On the type \<open>bulletin\<close> and the payload \<open>{"lat": 10 ** 400}\<close> it returns none:
  \<open>float(lat)\<close> raises \<open>OverflowError\<close>, \<open>extract_coordinates\<close> catches \<open>ValueError\<close> and
  \<open>TypeError\<close> only, and the exception leaves the dispatcher.
\<close>

theorem C6_dispatch_raises:
  "fst (dispatch_normalizer ''bulletin'' [(''lat'', PInt (10 ^ 400))] meta) =
     Inl (OverflowError ''int too large to convert to float'')"
proof -
  have "''bulletin'' \<in> set SUPPORTED_TYPES"
    by (simp add: SUPPORTED_TYPES_def)
  then show ?thesis
    by (simp only: dispatch_supported normalize_with_Inl[OF build_location_big_lat] fst_conv)
qed

text \<open>The rest of C6 holds: a fragment that is returned has the requested type, and an
  unsupported type raises the error that names it and the three supported types.\<close>

lemma dispatch_record_type:
  assumes "dispatch_normalizer rt payload meta = (Inr f, p')"
  shows "record_type f = rt"
proof -
  have s: "rt \<in> set SUPPORTED_TYPES"
    using assms by (rule dispatch_Inr_supported)
  show ?thesis
  proof (cases "build_location payload")
    case (Inl e)
    with assms s show ?thesis
      by (simp add: dispatch_supported normalize_with_Inl)
  next
    case (Inr loc)
    with assms s show ?thesis
      by (auto simp: dispatch_supported normalize_with_Inr assembled_record_fields)
  qed
qed

lemma unsupported_message_text:
  "unsupported_message rt =
     ''Unsupported record_type: '' @ [CHR 0x27] @ rt @ [CHR 0x27]
     @ ''. Supported: ['' @ [CHR 0x27] @ ''bulletin'' @ [CHR 0x27] @ '', '' @ [CHR 0x27]
     @ ''observation'' @ [CHR 0x27] @ '', '' @ [CHR 0x27] @ ''weather'' @ [CHR 0x27] @ '']''"
  by (simp add: unsupported_message_def NORMALIZERS_def str_repr_def repr_chr_def
      is_printable_def ord_def Let_def)

section \<open>C7: the metrics of a fragment\<close>

text \<open>
  C7: the metrics of a fragment are what \<open>validate_metrics\<close> keeps of the overlay, which
  starts from the payload's \<open>metrics\<close> sub-mapping when that is a mapping (else from the
  empty mapping) and sets each of the type's metric keys that the payload has a value for.
  Key by key, for a \<open>metrics\<close> sub-mapping with distinct keys: the top-level value wins over
  the nested one, a value that is an integer, float, string, boolean or null is kept as it
  is, any other value is dropped, and the flag \<open>invalid_metric_type\<close> is raised exactly when
  a value was dropped.
\<close>

theorem C7_metrics:
  "dispatch_normalizer rt payload meta = (Inr f, p') \<longrightarrow>
     metrics f =
       fst (validate_metrics (overlay_loop (METRIC_KEYS rt) payload
              (case dict_get payload ''metrics'' of PDict d \<Rightarrow> d | _ \<Rightarrow> [])))
     \<and> (metrics_well_formed payload \<longrightarrow>
          (\<forall>k. map_of (metrics f) k =
                 (case spec_raw_metric rt payload k of
                    None \<Rightarrow> None
                  | Some v \<Rightarrow> if is_scalar v then Some v else None))
          \<and> ((''invalid_metric_type'' \<in> set (quality_flags f)) =
               (\<exists>k v. spec_raw_metric rt payload k = Some v \<and> \<not> is_scalar v)))"
proof (intro impI conjI allI)
  assume d: "dispatch_normalizer rt payload meta = (Inr f, p')"
  let ?base = "case dict_get payload ''metrics'' of PDict d \<Rightarrow> d | _ \<Rightarrow> []"
  let ?raw = "overlay_loop (METRIC_KEYS rt) payload ?base"
  from d have s: "rt \<in> set SUPPORTED_TYPES"
    by (rule dispatch_Inr_supported)
  from d have n: "normalize_with rt (SEVERITY_KEYS rt) (TIME_KEYS rt) (SUMMARY_KEYS rt)
      (REGION_KEYS rt) (METRIC_KEYS rt) payload meta = (Inr f, p')"
    by (simp add: dispatch_supported[OF s])
  show m: "metrics f = fst (validate_metrics ?raw)"
  proof (cases "build_location payload")
    case (Inl e)
    with n show ?thesis
      by (simp add: normalize_with_Inl)
  next
    case (Inr loc)
    with n show ?thesis
      by (auto simp: normalize_with_Inr assembled_record_fields fst_overlay_metrics)
  qed
  have raw: "map_of ?raw k = spec_raw_metric rt payload k" for k
    by (cases "dict_get payload ''metrics''") (simp_all add: overlay_loop_map_of spec_raw_metric_def)
  assume w: "metrics_well_formed payload"
  then have "distinct (map fst ?base)"
    by (cases "dict_get payload ''metrics''") (simp_all add: metrics_well_formed_def)
  then have dr: "distinct (map fst ?raw)"
    by (rule overlay_loop_distinct)
  show "map_of (metrics f) k =
          (case spec_raw_metric rt payload k of
             None \<Rightarrow> None
           | Some v \<Rightarrow> if is_scalar v then Some v else None)" for k
    by (simp add: m validate_metrics_map_of[OF dr] raw)
  have "(''invalid_metric_type'' \<in> set (quality_flags f)) = (snd (validate_metrics ?raw) \<noteq> [])"
    using collect_quality_flags_distinct[of f]
    by (simp add: normalize_with_flags[OF n] fst_overlay_metrics)
  then show "(''invalid_metric_type'' \<in> set (quality_flags f)) =
               (\<exists>k v. spec_raw_metric rt payload k = Some v \<and> \<not> is_scalar v)"
    by (simp add: validate_metrics_flagged[OF dr] raw)
qed

lemma build_location_observation_example:
  "build_location
     [(''metrics'', PDict [(''snow_depth_cm'', PInt 100), (''layers'', PList [])]),
      (''snow_depth_cm'', PInt 180)] =
     Inr \<lparr>name = None, lat = None, lon = None, elevation_ft = None\<rparr>"
  by (simp add: build_location_def extract_coordinates_def dict_get_def py_or_def
      coerce_float_def coerce_int_def safe_str_def str_or_none_def)

lemma dispatch_observation_example:
  "dispatch_normalizer ''observation''
     [(''metrics'', PDict [(''snow_depth_cm'', PInt 100), (''layers'', PList [])]),
      (''snow_depth_cm'', PInt 180)] [] =
     (Inr \<lparr>provider_id = [], provider_name = [], record_type = ''observation'', region = None,
            location = \<lparr>name = None, lat = None, lon = None, elevation_ft = None\<rparr>,
            event_time = None, severity = ''unknown'',
            metrics = [(''snow_depth_cm'', PInt 180)], summary = [],
            quality_flags = [''missing_coordinates'', ''missing_timestamp'', ''unknown_severity'',
                             ''empty_summary'', ''invalid_metric_type'']\<rparr>,
      [(''metrics'', PDict [(''snow_depth_cm'', PInt 180), (''layers'', PList [])]),
       (''snow_depth_cm'', PInt 180)])"
  by (simp add: dispatch_normalizer_def NORMALIZERS_def normalize_observation_def
      normalize_with_Inr[OF build_location_observation_example] Let_def assembled_record_def
      overlay_metrics_def validate_metrics_def dict_get_def py_or_def collect_quality_flags_def
      normalize_severity_def safe_str_def py_str_def strip_def str_or_none_def)

theorem C7_metrics_witness:
  "dispatch_normalizer ''observation''
     [(''metrics'', PDict [(''snow_depth_cm'', PInt 100), (''layers'', PList [])]),
      (''snow_depth_cm'', PInt 180)] [] =
     (Inr \<lparr>provider_id = [], provider_name = [], record_type = ''observation'', region = None,
            location = \<lparr>name = None, lat = None, lon = None, elevation_ft = None\<rparr>,
            event_time = None, severity = ''unknown'',
            metrics = [(''snow_depth_cm'', PInt 180)], summary = [],
            quality_flags = [''missing_coordinates'', ''missing_timestamp'', ''unknown_severity'',
                             ''empty_summary'', ''invalid_metric_type'']\<rparr>,
      [(''metrics'', PDict [(''snow_depth_cm'', PInt 180), (''layers'', PList [])]),
       (''snow_depth_cm'', PInt 180)])
   \<and> metrics_well_formed
        [(''metrics'', PDict [(''snow_depth_cm'', PInt 100), (''layers'', PList [])]),
         (''snow_depth_cm'', PInt 180)]
   \<and> (\<exists>k v. spec_raw_metric ''observation''
               [(''metrics'', PDict [(''snow_depth_cm'', PInt 100), (''layers'', PList [])]),
                (''snow_depth_cm'', PInt 180)] k = Some v \<and> \<not> is_scalar v)
   \<and> (case spec_raw_metric ''observation''
               [(''metrics'', PDict [(''snow_depth_cm'', PInt 100), (''layers'', PList [])]),
                (''snow_depth_cm'', PInt 180)] ''snow_depth_cm'' of
          None \<Rightarrow> None
        | Some v \<Rightarrow> if is_scalar v then Some v else None) = Some (PInt 180)"
proof -
  let ?p = "[(''metrics'', PDict [(''snow_depth_cm'', PInt 100), (''layers'', PList [])]),
            (''snow_depth_cm'', PInt 180)]"
  have w: "metrics_well_formed ?p"
    by (simp add: metrics_well_formed_def dict_get_def)
  note t = C7_metrics[THEN mp, OF dispatch_observation_example, THEN conjunct2, THEN mp, OF w]
  from t[THEN conjunct2]
  have e: "\<exists>k v. spec_raw_metric ''observation'' ?p k = Some v \<and> \<not> is_scalar v"
    by simp
  from t[THEN conjunct1, THEN spec, of "''snow_depth_cm''"]
  have m: "(case spec_raw_metric ''observation'' ?p ''snow_depth_cm'' of
          None \<Rightarrow> None
        | Some v \<Rightarrow> if is_scalar v then Some v else None) = Some (PInt 180)"
    by simp
  from dispatch_observation_example w e m show ?thesis
    by (intro conjI)
qed

section \<open>C8: the normalizers on malformed values\<close>

text \<open>
  C8 says that each normalizer returns a fragment for every payload and raises nothing.
  On the payload \<open>{"lat": 10 ** 400}\<close> each of the three raises \<open>OverflowError\<close>:
  \<open>float()\<close> of an \<open>int\<close> beyond the range of a float raises it, and the \<open>except\<close> clause
  of \<open>extract_coordinates\<close> names \<open>ValueError\<close> and \<open>TypeError\<close> only, where
  \<open>parse_timestamp\<close> names \<open>OverflowError\<close> too.
\<close>

theorem C8_normalizers_raise:
  "fst (normalize_bulletin [(''lat'', PInt (10 ^ 400))] meta) =
     Inl (OverflowError ''int too large to convert to float'')
   \<and> fst (normalize_observation [(''lat'', PInt (10 ^ 400))] meta) =
     Inl (OverflowError ''int too large to convert to float'')
   \<and> fst (normalize_weather [(''lat'', PInt (10 ^ 400))] meta) =
     Inl (OverflowError ''int too large to convert to float'')"
  by (simp only: normalize_bulletin_def normalize_observation_def normalize_weather_def
      normalize_with_Inl[OF build_location_big_lat] fst_conv simp_thms)

section \<open>C9: a batch with one unsupported item\<close>

text \<open>The loop of \<open>ingest_batch\<close> adds to the results and to the count it starts from.\<close>

lemma batch_loop_acc:
  "batch_loop uuid4 now_iso items db res sc =
     (case batch_loop uuid4 now_iso items db [] 0 of
        ((rs, s), db') \<Rightarrow> ((res @ rs, sc + s), db'))"
proof (induction items arbitrary: db res sc)
  case Nil
  show ?case by simp
next
  case (Cons item items)
  obtain out db1 where p: "process_ingest uuid4 now_iso item db = (out, db1)"
    by (cases "process_ingest uuid4 now_iso item db")
  show ?case
  proof (cases out)
    case (Inl e)
    show ?thesis
      using p Inl
      by (simp add: Cons.IH[of db1 "res @ _" sc] Cons.IH[of db1 "[_]" 0] split: prod.splits)
  next
    case (Inr row)
    show ?thesis
      using p Inr
      by (simp add: Cons.IH[of db1 "res @ _" "sc + 1"] Cons.IH[of db1 "[_]" 1] split: prod.splits)
  qed
qed

lemma batch_loop_append:
  "batch_loop uuid4 now_iso (xs @ ys) db res sc =
     (case batch_loop uuid4 now_iso xs db res sc of
        ((r1, s1), db1) \<Rightarrow> batch_loop uuid4 now_iso ys db1 r1 s1)"
  by (induction xs arbitrary: db res sc) (auto split: prod.splits sum.splits)

lemma batch_loop_unsupported:
  assumes "req_record_type item \<notin> set SUPPORTED_TYPES"
  shows "batch_loop uuid4 now_iso (item # items) db res sc =
     batch_loop uuid4 now_iso items db
       (res @ [\<lparr>success = False, result_record = None,
                 error = Some (unsupported_message (req_record_type item))\<rparr>]) sc"
proof -
  have "normalized_of item = (Inl (ValueError (unsupported_message (req_record_type item))),
          req_payload item)"
    using assms by (simp add: normalized_of_def dispatch_unsupported)
  then have "process_ingest uuid4 now_iso item db =
      (Inl (ValueError (unsupported_message (req_record_type item))), db)"
    by (rule process_ingest_Inl)
  then show ?thesis by simp
qed

lemma batch_loop_all_ok:
  assumes "\<forall>x \<in> set xs. \<exists>f p. normalized_of x = (Inr f, p)"
  shows "\<exists>rs db'. batch_loop uuid4 now_iso xs db [] 0 = ((rs, int (length xs)), db')
           \<and> length rs = length xs \<and> (\<forall>i < length xs. entry_of (xs ! i) (rs ! i))"
  using assms
proof (induction xs arbitrary: db)
  case Nil
  show ?case by simp
next
  case (Cons x xs)
  from Cons.prems obtain f p where n: "normalized_of x = (Inr f, p)"
    by auto
  from process_ingest_Inr[OF n, of uuid4 now_iso db] obtain row where
    pi: "process_ingest uuid4 now_iso x db =
           (Inr row, db\<lparr>rows := rows db @ [row], draws := Suc (draws db)\<rparr>)"
    and row: "fragment.truncate row = f" "raw_payload row = p"
    by blast
  let ?r = "\<lparr>success = True, result_record = Some (record_to_schema row), error = None\<rparr>"
  let ?db1 = "db\<lparr>rows := rows db @ [row], draws := Suc (draws db)\<rparr>"
  from Cons.prems have "\<forall>x \<in> set xs. \<exists>f p. normalized_of x = (Inr f, p)"
    by simp
  from Cons.IH[OF this, of ?db1] obtain rs db' where
    ih: "batch_loop uuid4 now_iso xs ?db1 [] 0 = ((rs, int (length xs)), db')"
    and len: "length rs = length xs"
    and ent: "\<forall>i < length xs. entry_of (xs ! i) (rs ! i)"
    by blast
  have e0: "entry_of x ?r"
    by (simp add: entry_of_def record_to_schema_def row n)
  have "batch_loop uuid4 now_iso (x # xs) db [] 0 = batch_loop uuid4 now_iso xs ?db1 [?r] 1"
    by (simp add: pi)
  also have "\<dots> = ((?r # rs, int (length (x # xs))), db')"
    by (subst batch_loop_acc) (simp add: ih)
  finally have b: "batch_loop uuid4 now_iso (x # xs) db [] 0 =
      ((?r # rs, int (length (x # xs))), db')" .
  have "\<forall>i < length (x # xs). entry_of ((x # xs) ! i) ((?r # rs) ! i)"
    using e0 ent by (auto simp: nth_Cons split: nat.splits)
  with b len show ?case
    by auto
qed

text \<open>
  C9: in a batch of \<open>N\<close> items where item \<open>k\<close> has an unsupported record type and every
  other item is normalized to a fragment, the response counts \<open>N\<close> items, one failure and
  \<open>N - 1\<close> successes; it has \<open>N\<close> results in the order of the items, the one at \<open>k\<close> a
  failure with the dispatcher's message, every other one a success carrying the fragment
  and the payload of its own item. The results of the other items, and the store, are
  those of the batch without item \<open>k\<close>.
\<close>

theorem C9_batch_isolation:
  assumes k: "k < length items"
    and bad: "req_record_type (items ! k) \<notin> set SUPPORTED_TYPES"
    and ok: "\<forall>i < length items. i \<noteq> k \<longrightarrow> (\<exists>f p. normalized_of (items ! i) = (Inr f, p))"
  shows "total_count (fst (ingest_batch uuid4 now_iso items db)) = int (length items)
    \<and> failed_count (fst (ingest_batch uuid4 now_iso items db)) = 1
    \<and> success_count (fst (ingest_batch uuid4 now_iso items db)) = int (length items) - 1
    \<and> length (results (fst (ingest_batch uuid4 now_iso items db))) = length items
    \<and> results (fst (ingest_batch uuid4 now_iso items db)) ! k =
          \<lparr>success = False, result_record = None,
           error = Some (unsupported_message (req_record_type (items ! k)))\<rparr>
    \<and> (\<forall>i < length items. i \<noteq> k \<longrightarrow>
           entry_of (items ! i) (results (fst (ingest_batch uuid4 now_iso items db)) ! i))
    \<and> results (fst (ingest_batch uuid4 now_iso items db)) =
          take k (results (fst (ingest_batch uuid4 now_iso
                                  (take k items @ drop (Suc k) items) db)))
          @ [\<lparr>success = False, result_record = None,
               error = Some (unsupported_message (req_record_type (items ! k)))\<rparr>]
          @ drop k (results (fst (ingest_batch uuid4 now_iso
                                    (take k items @ drop (Suc k) items) db)))
    \<and> snd (ingest_batch uuid4 now_iso items db) =
          snd (ingest_batch uuid4 now_iso (take k items @ drop (Suc k) items) db)"
proof -
  let ?xs = "take k items" and ?ys = "drop (Suc k) items" and ?b = "items ! k"
  let ?fail = "\<lparr>success = False, result_record = None,
                 error = Some (unsupported_message (req_record_type ?b))\<rparr>"
  have items: "items = ?xs @ ?b # ?ys"
    using k by (rule id_take_nth_drop)
  have lx: "length ?xs = k"
    using k by simp
  have ly: "length ?ys = length items - Suc k"
    by simp
  have okx: "\<forall>x \<in> set ?xs. \<exists>f p. normalized_of x = (Inr f, p)"
  proof
    fix x assume "x \<in> set ?xs"
    then obtain i where "i < length ?xs" "x = ?xs ! i"
      by (auto simp: in_set_conv_nth)
    with ok k show "\<exists>f p. normalized_of x = (Inr f, p)"
      by auto
  qed
  have oky: "\<forall>y \<in> set ?ys. \<exists>f p. normalized_of y = (Inr f, p)"
  proof
    fix y assume "y \<in> set ?ys"
    then obtain j where j: "j < length ?ys" "y = ?ys ! j"
      by (auto simp: in_set_conv_nth)
    then have "y = items ! (Suc k + j)" "Suc k + j < length items" "Suc k + j \<noteq> k"
      using k by auto
    with ok show "\<exists>f p. normalized_of y = (Inr f, p)"
      by metis
  qed
  from batch_loop_all_ok[OF okx, of uuid4 now_iso db] obtain rs1 d1 where
    b1: "batch_loop uuid4 now_iso ?xs db [] 0 = ((rs1, int (length ?xs)), d1)"
    and l1: "length rs1 = length ?xs"
    and e1: "\<forall>i < length ?xs. entry_of (?xs ! i) (rs1 ! i)"
    by blast
  from batch_loop_all_ok[OF oky, of uuid4 now_iso d1] obtain rs2 d2 where
    b2: "batch_loop uuid4 now_iso ?ys d1 [] 0 = ((rs2, int (length ?ys)), d2)"
    and l2: "length rs2 = length ?ys"
    and e2: "\<forall>i < length ?ys. entry_of (?ys ! i) (rs2 ! i)"
    by blast
  have "batch_loop uuid4 now_iso (?xs @ ?b # ?ys) db [] 0 =
      batch_loop uuid4 now_iso (?b # ?ys) d1 rs1 (int (length ?xs))"
    by (simp add: batch_loop_append b1)
  also have "\<dots> = batch_loop uuid4 now_iso ?ys d1 (rs1 @ [?fail]) (int (length ?xs))"
    by (rule batch_loop_unsupported[OF bad])
  also have "\<dots> = (((rs1 @ [?fail]) @ rs2, int (length ?xs) + int (length ?ys)), d2)"
    by (subst batch_loop_acc) (simp add: b2)
  finally have full: "batch_loop uuid4 now_iso items db [] 0 =
      ((rs1 @ ?fail # rs2, int (length ?xs) + int (length ?ys)), d2)"
    using items by simp
  have "batch_loop uuid4 now_iso (?xs @ ?ys) db [] 0 =
      batch_loop uuid4 now_iso ?ys d1 rs1 (int (length ?xs))"
    by (simp add: batch_loop_append b1)
  also have "\<dots> = ((rs1 @ rs2, int (length ?xs) + int (length ?ys)), d2)"
    by (subst batch_loop_acc) (simp add: b2)
  finally have rest: "batch_loop uuid4 now_iso (?xs @ ?ys) db [] 0 =
      ((rs1 @ rs2, int (length ?xs) + int (length ?ys)), d2)" .
  have r: "results (fst (ingest_batch uuid4 now_iso items db)) = rs1 @ ?fail # rs2"
    and sc: "success_count (fst (ingest_batch uuid4 now_iso items db)) =
               int (length ?xs) + int (length ?ys)"
    and fc: "failed_count (fst (ingest_batch uuid4 now_iso items db)) =
               int (length items) - (int (length ?xs) + int (length ?ys))"
    and tc: "total_count (fst (ingest_batch uuid4 now_iso items db)) = int (length items)"
    and st: "snd (ingest_batch uuid4 now_iso items db) = d2"
    by (simp_all add: ingest_batch_def full)
  have r0: "results (fst (ingest_batch uuid4 now_iso (?xs @ ?ys) db)) = rs1 @ rs2"
    and st0: "snd (ingest_batch uuid4 now_iso (?xs @ ?ys) db) = d2"
    by (simp_all add: ingest_batch_def rest)
  have n: "int (length ?xs) + int (length ?ys) = int (length items) - 1"
    using k by simp
  have ent: "entry_of (items ! i) ((rs1 @ ?fail # rs2) ! i)" if "i < length items" "i \<noteq> k" for i
  proof (cases "i < k")
    case True
    with e1 lx l1 show ?thesis
      by (simp add: nth_append)
  next
    case False
    define j where "j = i - Suc k"
    from False that have j: "i = Suc k + j" "j < length ?ys"
      by (simp_all add: j_def)
    with e2 have "entry_of (?ys ! j) (rs2 ! j)"
      by simp
    moreover have "?ys ! j = items ! i"
      using j k by simp
    moreover have "(rs1 @ ?fail # rs2) ! i = rs2 ! j"
      using j l1 lx by (simp add: nth_append)
    ultimately show ?thesis
      by simp
  qed
  have kth: "(rs1 @ ?fail # rs2) ! k = ?fail"
    using l1 lx by (simp add: nth_append)
  show ?thesis
    using ent kth l1 l2 lx ly k
    by (simp add: r sc fc tc st r0 st0 n)
qed

theorem C9_batch_isolation_witness:
  "1 < length [\<lparr>req_provider_id = ''p'', req_provider_name = ''P'',
                 req_record_type = ''bulletin'', req_payload = []\<rparr>,
               \<lparr>req_provider_id = ''p'', req_provider_name = ''P'',
                 req_record_type = ''forecast'', req_payload = []\<rparr>]
   \<and> req_record_type ([\<lparr>req_provider_id = ''p'', req_provider_name = ''P'',
                            req_record_type = ''bulletin'', req_payload = []\<rparr>,
                          \<lparr>req_provider_id = ''p'', req_provider_name = ''P'',
                            req_record_type = ''forecast'', req_payload = []\<rparr>] ! 1)
         \<notin> set SUPPORTED_TYPES
   \<and> (\<exists>f p. normalized_of \<lparr>req_provider_id = ''p'', req_provider_name = ''P'',
                                 req_record_type = ''bulletin'', req_payload = []\<rparr> = (Inr f, p))
   \<and> failed_count (fst (ingest_batch (\<lambda>n. ''id'') (\<lambda>n. ''now'')
          [\<lparr>req_provider_id = ''p'', req_provider_name = ''P'',
             req_record_type = ''bulletin'', req_payload = []\<rparr>,
           \<lparr>req_provider_id = ''p'', req_provider_name = ''P'',
             req_record_type = ''forecast'', req_payload = []\<rparr>]
          \<lparr>rows = [], draws = 0\<rparr>)) = 1
   \<and> success_count (fst (ingest_batch (\<lambda>n. ''id'') (\<lambda>n. ''now'')
          [\<lparr>req_provider_id = ''p'', req_provider_name = ''P'',
             req_record_type = ''bulletin'', req_payload = []\<rparr>,
           \<lparr>req_provider_id = ''p'', req_provider_name = ''P'',
             req_record_type = ''forecast'', req_payload = []\<rparr>]
          \<lparr>rows = [], draws = 0\<rparr>)) = 1"
proof -
  let ?a = "\<lparr>req_provider_id = ''p'', req_provider_name = ''P'',
             req_record_type = ''bulletin'', req_payload = []\<rparr>"
  let ?b = "\<lparr>req_provider_id = ''p'', req_provider_name = ''P'',
             req_record_type = ''forecast'', req_payload = []\<rparr>"
  have h1: "1 < length [?a, ?b]"
    by simp
  have h2: "req_record_type ([?a, ?b] ! 1) \<notin> set SUPPORTED_TYPES"
    by (simp add: SUPPORTED_TYPES_def)
  have s: "''bulletin'' \<in> set SUPPORTED_TYPES"
    by (simp add: SUPPORTED_TYPES_def)
  have a: "\<exists>f p. normalized_of ?a = (Inr f, p)"
    by (simp add: normalized_of_def dispatch_supported[OF s]
        normalize_with_Inr[OF build_location_empty])
  have h3: "\<forall>i < length [?a, ?b]. i \<noteq> 1 \<longrightarrow> (\<exists>f p. normalized_of ([?a, ?b] ! i) = (Inr f, p))"
  proof (intro allI impI)
    fix i assume "i < length [?a, ?b]" "i \<noteq> 1"
    then have "i = 0" by simp
    with a show "\<exists>f p. normalized_of ([?a, ?b] ! i) = (Inr f, p)" by simp
  qed
  from C9_batch_isolation[OF h1 h2 h3, of "\<lambda>n. ''id''" "\<lambda>n. ''now''" "\<lparr>rows = [], draws = 0\<rparr>"]
  have "failed_count (fst (ingest_batch (\<lambda>n. ''id'') (\<lambda>n. ''now'') [?a, ?b]
                            \<lparr>rows = [], draws = 0\<rparr>)) = 1"
    and "success_count (fst (ingest_batch (\<lambda>n. ''id'') (\<lambda>n. ''now'') [?a, ?b]
                            \<lparr>rows = [], draws = 0\<rparr>)) = 1"
    by simp_all
  with h1 h2 a show ?thesis
    by (intro conjI)
qed

end
